theory Spec2Isabelle
  imports Complex_Main
begin

section \<open>Numbers and arrays of the host language\<close>

text \<open>
  The analytical core of the repository is written in JavaScript. A value that may be
  \<^verbatim>\<open>undefined\<close> is an \<open>option\<close>, and an array is a list. Numbers are modelled in two ways.
  Where a claim turns on which branch is taken, on a comparison of given values or on a
  bound that rounding does not move, a number is a HOL real and the arithmetic is exact.
  Where a claim pins a result to a rounding or to a threshold, the number is an IEEE 754
  double and every operation rounds (next section).
\<close>

text \<open>\<^verbatim>\<open>Array.prototype.slice(start, end)\<close>: a negative index counts from the end of the
  array, and both indices are clipped to the array.\<close>

definition js_slice :: "'a list \<Rightarrow> int \<Rightarrow> int \<Rightarrow> 'a list" where
  "js_slice xs start end' =
     (let n = int (length xs);
          k = (if start < 0 then max (n + start) 0 else min start n);
          final = (if end' < 0 then max (n + end') 0 else min end' n)
      in take (nat (final - k)) (drop (nat k) xs))"

text \<open>\<^verbatim>\<open>xs.slice(start)\<close>: the end defaults to the length of the array.\<close>

definition js_slice_from :: "'a list \<Rightarrow> int \<Rightarrow> 'a list" where
  "js_slice_from xs start = js_slice xs start (int (length xs))"

text \<open>Truthiness of a number that may be undefined: \<^verbatim>\<open>undefined\<close> and \<open>0\<close> are falsy.\<close>

definition truthy :: "real option \<Rightarrow> bool" where
  "truthy v = (case v of None \<Rightarrow> False | Some x \<Rightarrow> x \<noteq> 0)"

text \<open>\<^verbatim>\<open>a > b\<close> and \<^verbatim>\<open>a < b\<close> where either side may be undefined: a comparison with
  \<^verbatim>\<open>undefined\<close> is false.\<close>

definition js_gt :: "real option \<Rightarrow> real option \<Rightarrow> bool" where
  "js_gt a b = (case (a, b) of (Some x, Some y) \<Rightarrow> x > y | _ \<Rightarrow> False)"

definition js_lt :: "real option \<Rightarrow> real option \<Rightarrow> bool" where
  "js_lt a b = (case (a, b) of (Some x, Some y) \<Rightarrow> x < y | _ \<Rightarrow> False)"

section \<open>Double-precision numbers\<close>

text \<open>
  Where a result of the source is pinned by a rounding (the integer that \<^verbatim>\<open>Math.round\<close>
  returns, a comparison against a threshold), the numbers are modelled as the IEEE 754
  binary64 values that JavaScript computes with: finite values, the two zeros, the two
  infinities and NaN. Every arithmetic operation rounds its exact result to the nearest
  double, ties to the even significand.
\<close>

datatype jsnum = Fin real | MinusZero | PlusInfinity | MinusInfinity | NotANumber

text \<open>\<open>Fin 0\<close> is the positive zero. \<open>pow2 e\<close> is the power of two with an integer exponent.\<close>

definition pow2 :: "int \<Rightarrow> real" where
  "pow2 e = (if 0 \<le> e then 2 ^ nat e else 1 / 2 ^ nat (- e))"

text \<open>The binade of a positive real \<open>x\<close> is the exponent \<open>e\<close> with \<open>2^e \<le> x < 2^(e+1)\<close>. For
  \<open>x \<ge> 1\<close> it is found by halving, for \<open>x < 1\<close> by doubling.\<close>

function ilog2_up :: "real \<Rightarrow> nat" where
  "ilog2_up x = (if x < 2 then 0 else Suc (ilog2_up (x / 2)))"
  by pat_completeness auto
termination
proof (relation "measure (\<lambda>x. nat \<lfloor>x\<rfloor>)")
  show "wf (measure (\<lambda>x::real. nat \<lfloor>x\<rfloor>))" by simp
next
  fix x :: real
  assume "\<not> x < 2"
  then have two: "2 \<le> x" by simp
  then have "1 \<le> \<lfloor>x\<rfloor>" by linarith
  moreover have "x < of_int \<lfloor>x\<rfloor> + 1" by linarith
  ultimately have "x / 2 < of_int \<lfloor>x\<rfloor>" by linarith
  then have lt: "\<lfloor>x / 2\<rfloor> < \<lfloor>x\<rfloor>" by (simp add: floor_less_iff)
  have pos: "0 < \<lfloor>x\<rfloor>" using two by linarith
  from lt pos have "nat \<lfloor>x / 2\<rfloor> < nat \<lfloor>x\<rfloor>" by linarith
  then show "(x / 2, x) \<in> measure (\<lambda>x. nat \<lfloor>x\<rfloor>)" by (simp only: in_measure)
qed

function ilog2_down :: "real \<Rightarrow> nat" where
  "ilog2_down x = (if x \<le> 0 \<or> 1 \<le> x then 0 else Suc (ilog2_down (x * 2)))"
  by pat_completeness auto
termination
proof (relation "measure (\<lambda>x. nat \<lfloor>1 / x\<rfloor>)")
  show "wf (measure (\<lambda>x::real. nat \<lfloor>1 / x\<rfloor>))" by simp
next
  fix x :: real
  assume "\<not> (x \<le> 0 \<or> 1 \<le> x)"
  then have x: "0 < x" "x < 1" by simp_all
  define y where "y = 1 / x"
  have one: "1 \<le> y" using x by (simp add: y_def)
  have eq: "1 / (x * 2) = y / 2" by (simp add: y_def)
  have "1 \<le> \<lfloor>y\<rfloor>" using one by linarith
  moreover have "y < of_int \<lfloor>y\<rfloor> + 1" by linarith
  ultimately have "y / 2 < of_int \<lfloor>y\<rfloor>" by linarith
  then have lt: "\<lfloor>y / 2\<rfloor> < \<lfloor>y\<rfloor>" by (simp add: floor_less_iff)
  have pos: "0 < \<lfloor>y\<rfloor>" using one by linarith
  from lt pos have "nat \<lfloor>y / 2\<rfloor> < nat \<lfloor>y\<rfloor>" by linarith
  then have "nat \<lfloor>1 / (x * 2)\<rfloor> < nat \<lfloor>1 / x\<rfloor>" by (simp only: eq y_def)
  then show "(x * 2, x) \<in> measure (\<lambda>x. nat \<lfloor>1 / x\<rfloor>)" by (simp only: in_measure)
qed

text \<open>The equations of the two searches are applied where they are wanted.\<close>

declare ilog2_up.simps [simp del] ilog2_down.simps [simp del]

definition binade :: "real \<Rightarrow> int" where
  "binade x = (if 1 \<le> x then int (ilog2_up x) else - int (ilog2_down x))"

text \<open>The nearest integer, a half going to the even neighbour.\<close>

definition round_half_even :: "real \<Rightarrow> int" where
  "round_half_even n =
     (let f = \<lfloor>n\<rfloor>; d = n - of_int f
      in if d < 1 / 2 then f else if 1 / 2 < d then f + 1 else if even f then f else f + 1)"

text \<open>The double nearest to a positive real: 53 significant bits in the binade of \<open>x\<close>, and
  the fixed spacing \<open>2^(-1074)\<close> of the subnormal numbers below \<open>2^(-1022)\<close>.\<close>

definition nearest_double :: "real \<Rightarrow> real" where
  "nearest_double x =
     (let e = max (binade x) (- 1022);
          ulp = pow2 (e - 52)
      in of_int (round_half_even (x / ulp)) * ulp)"

text \<open>Rounding an exact result: a magnitude that rounds to \<open>2^1024\<close> or more overflows to an
  infinity, and a non-zero result that rounds to zero keeps its sign.\<close>

definition round_to_double :: "real \<Rightarrow> jsnum" where
  "round_to_double x =
     (if x = 0 then Fin 0
      else (let y = nearest_double \<bar>x\<bar>
            in if pow2 1024 \<le> y then (if x < 0 then MinusInfinity else PlusInfinity)
               else if y = 0 then (if x < 0 then MinusZero else Fin 0)
               else Fin (if x < 0 then - y else y)))"

text \<open>Sign bit, zero test, infinity test and the real value of a finite number.\<close>

fun is_negative :: "jsnum \<Rightarrow> bool" where
  "is_negative (Fin x) = (x < 0)"
| "is_negative MinusZero = True"
| "is_negative PlusInfinity = False"
| "is_negative MinusInfinity = True"
| "is_negative NotANumber = False"

fun is_zero :: "jsnum \<Rightarrow> bool" where
  "is_zero (Fin x) = (x = 0)"
| "is_zero MinusZero = True"
| "is_zero v = False"

fun is_infinite :: "jsnum \<Rightarrow> bool" where
  "is_infinite PlusInfinity = True"
| "is_infinite MinusInfinity = True"
| "is_infinite v = False"

fun finite_value :: "jsnum \<Rightarrow> real" where
  "finite_value (Fin x) = x"
| "finite_value v = 0"

definition signed_zero :: "bool \<Rightarrow> jsnum" where
  "signed_zero negative = (if negative then MinusZero else Fin 0)"

definition signed_infinity :: "bool \<Rightarrow> jsnum" where
  "signed_infinity negative = (if negative then MinusInfinity else PlusInfinity)"

text \<open>A numeric literal of the source is the double nearest to the decimal written.\<close>

definition lit :: "real \<Rightarrow> jsnum" where
  "lit x = round_to_double x"

text \<open>Negation, \<^verbatim>\<open>a + b\<close>, \<^verbatim>\<open>a - b\<close>, \<^verbatim>\<open>a * b\<close> and \<^verbatim>\<open>a / b\<close>. A sum of two zeros is \<open>-0\<close> only
  when both are; an exact sum of zero is \<open>+0\<close>; the sign of a product or quotient is the
  exclusive or of the signs; \<open>0 / 0\<close>, \<open>\<infinity> / \<infinity>\<close>, \<open>\<infinity> - \<infinity>\<close> and \<open>0 * \<infinity>\<close> are NaN.\<close>

fun num_neg :: "jsnum \<Rightarrow> jsnum" where
  "num_neg (Fin x) = (if x = 0 then MinusZero else Fin (- x))"
| "num_neg MinusZero = Fin 0"
| "num_neg PlusInfinity = MinusInfinity"
| "num_neg MinusInfinity = PlusInfinity"
| "num_neg NotANumber = NotANumber"

definition num_add :: "jsnum \<Rightarrow> jsnum \<Rightarrow> jsnum" where
  "num_add a b =
     (if a = NotANumber \<or> b = NotANumber then NotANumber
      else if is_infinite a \<and> is_infinite b then (if a = b then a else NotANumber)
      else if is_infinite a then a
      else if is_infinite b then b
      else if a = MinusZero \<and> b = MinusZero then MinusZero
      else round_to_double (finite_value a + finite_value b))"

definition num_sub :: "jsnum \<Rightarrow> jsnum \<Rightarrow> jsnum" where
  "num_sub a b = num_add a (num_neg b)"

definition num_mul :: "jsnum \<Rightarrow> jsnum \<Rightarrow> jsnum" where
  "num_mul a b =
     (if a = NotANumber \<or> b = NotANumber then NotANumber
      else if is_infinite a \<or> is_infinite b then
        (if is_zero a \<or> is_zero b then NotANumber
         else signed_infinity (is_negative a \<noteq> is_negative b))
      else if is_zero a \<or> is_zero b then signed_zero (is_negative a \<noteq> is_negative b)
      else round_to_double (finite_value a * finite_value b))"

definition num_div :: "jsnum \<Rightarrow> jsnum \<Rightarrow> jsnum" where
  "num_div a b =
     (if a = NotANumber \<or> b = NotANumber then NotANumber
      else if is_infinite a then
        (if is_infinite b then NotANumber
         else signed_infinity (is_negative a \<noteq> is_negative b))
      else if is_infinite b then signed_zero (is_negative a \<noteq> is_negative b)
      else if is_zero b then
        (if is_zero a then NotANumber
         else signed_infinity (is_negative a \<noteq> is_negative b))
      else if is_zero a then signed_zero (is_negative a \<noteq> is_negative b)
      else round_to_double (finite_value a / finite_value b))"

text \<open>\<^verbatim>\<open>a < b\<close> and \<^verbatim>\<open>a > b\<close>: false when either side is NaN; the two zeros are equal.\<close>

fun rank :: "jsnum \<Rightarrow> int" where
  "rank PlusInfinity = 1"
| "rank MinusInfinity = - 1"
| "rank v = 0"

definition num_less :: "jsnum \<Rightarrow> jsnum \<Rightarrow> bool" where
  "num_less a b =
     (a \<noteq> NotANumber \<and> b \<noteq> NotANumber
      \<and> (rank a < rank b \<or> (rank a = 0 \<and> rank b = 0 \<and> finite_value a < finite_value b)))"

definition num_greater :: "jsnum \<Rightarrow> jsnum \<Rightarrow> bool" where
  "num_greater a b = num_less b a"

text \<open>\<^verbatim>\<open>Math.max(a, b)\<close> and \<^verbatim>\<open>Math.min(a, b)\<close>: NaN when either argument is NaN, and
  \<open>-0\<close> counts as smaller than \<open>+0\<close>.\<close>

definition num_max :: "jsnum \<Rightarrow> jsnum \<Rightarrow> jsnum" where
  "num_max a b =
     (if a = NotANumber \<or> b = NotANumber then NotANumber
      else if num_less a b then b
      else if num_less b a then a
      else if a = MinusZero then b else a)"

definition num_min :: "jsnum \<Rightarrow> jsnum \<Rightarrow> jsnum" where
  "num_min a b =
     (if a = NotANumber \<or> b = NotANumber then NotANumber
      else if num_less a b then a
      else if num_less b a then b
      else if b = MinusZero then b else a)"

text \<open>\<^verbatim>\<open>Math.round(x)\<close>: the integer \<open>floor (x + 1/2)\<close>, taken exactly, with the sign of \<open>x\<close>
  when it is zero.\<close>

fun num_round :: "jsnum \<Rightarrow> jsnum" where
  "num_round (Fin x) =
     (let n = \<lfloor>x + 1 / 2\<rfloor> in if n = 0 \<and> x < 0 then MinusZero else Fin (of_int n))"
| "num_round v = v"

section \<open>The scoring engine (AIEngine.js)\<close>

subsection \<open>Engine state\<close>

datatype color = GREEN | RED

text \<open>\<^verbatim>\<open>this.weights\<close> is an object of objects: category name to feature name to number.
  It is kept as an association list in the order the constructor writes the keys, which is
  the order \<^verbatim>\<open>Object.keys\<close> enumerates them.\<close>

type_synonym weight_table = "(string \<times> (string \<times> real) list) list"

record engine =
  weights :: weight_table
  isInitialized :: bool
  epochs :: int
  batchSize :: int

text \<open>\<^verbatim>\<open>this.weights[category][feature]\<close>.\<close>

definition weight_of :: "weight_table \<Rightarrow> string \<Rightarrow> string \<Rightarrow> real option" where
  "weight_of w category feature =
     (case map_of w category of None \<Rightarrow> None | Some fs \<Rightarrow> map_of fs feature)"

text \<open>The constructor, with the environment variables unset (\<^verbatim>\<open>AI_EPOCHS\<close> and
  \<^verbatim>\<open>AI_BATCH_SIZE\<close> default to 100 and 32).\<close>

definition initial_weights :: weight_table where
  "initial_weights =
     [(''technical'', [(''rsi'', 0.15), (''macd'', 0.20), (''bollinger'', 0.15),
                       (''sma'', 0.10), (''ema'', 0.10)]),
      (''priceAction'', [(''patterns'', 0.25), (''pullbacks'', 0.30), (''volume'', 0.15)]),
      (''market'', [(''volatility'', 0.10), (''trend'', 0.15), (''momentum'', 0.20)])]"

definition new_AIEngine :: engine where
  "new_AIEngine = \<lparr>weights = initial_weights, isInitialized = False, epochs = 100, batchSize = 32\<rparr>"

subsection \<open>Feature bundles\<close>

text \<open>The fields of a feature bundle that \<^verbatim>\<open>calculateScore\<close> reads. A section that is
  absent, and a field that is \<^verbatim>\<open>undefined\<close>, is \<open>None\<close>.\<close>

record technical_features =
  rsi :: "real option"
  macd :: "real option"
  macdSignal :: "real option"
  bollingerLower :: "real option"
  bollingerUpper :: "real option"

record priceAction_features =
  patterns :: "string list option"

record pullback_features =
  trend :: "string option"
  pullbacks :: "real option"

record market_features =
  market_price :: "real option"

record derived_features =
  priceMomentum :: "real option"
  volumeTrend :: "real option"

record features =
  technical :: "technical_features option"
  priceAction :: "priceAction_features option"
  pullback :: "pullback_features option"
  market :: "market_features option"
  derived :: "derived_features option"

subsection \<open>calculateScore\<close>

text \<open>Each block of \<^verbatim>\<open>calculateScore\<close> takes the running \<^verbatim>\<open>score\<close> and returns it
  updated; the statements of a block are the successive bindings of \<open>score\<close>.\<close>

definition score_technical :: "features \<Rightarrow> color \<Rightarrow> real \<Rightarrow> real" where
  "score_technical f c score =
     (case technical f of
        None \<Rightarrow> score
      | Some tech \<Rightarrow>
          (let score = (if rsi tech \<noteq> None then
                          (let score = (if c = GREEN \<and> js_lt (rsi tech) (Some 70)
                                        then score + 0.1 else score);
                               score = (if c = RED \<and> js_gt (rsi tech) (Some 30)
                                        then score + 0.1 else score)
                           in score)
                        else score);
               score = (if macd tech \<noteq> None \<and> macdSignal tech \<noteq> None then
                          (let score = (if c = GREEN \<and> js_gt (macd tech) (macdSignal tech)
                                        then score + 0.15 else score);
                               score = (if c = RED \<and> js_lt (macd tech) (macdSignal tech)
                                        then score + 0.15 else score)
                           in score)
                        else score);
               score = (if truthy (bollingerLower tech) \<and> truthy (bollingerUpper tech)
                           \<and> truthy (case market f of None \<Rightarrow> None | Some m \<Rightarrow> market_price m) then
                          (let p = (case market f of None \<Rightarrow> None | Some m \<Rightarrow> market_price m);
                               score = (if c = GREEN \<and> js_lt p (bollingerLower tech)
                                        then score + 0.2 else score);
                               score = (if c = RED \<and> js_gt p (bollingerUpper tech)
                                        then score + 0.2 else score)
                           in score)
                        else score)
           in score))"

definition score_priceAction :: "features \<Rightarrow> color \<Rightarrow> real \<Rightarrow> real" where
  "score_priceAction f c score =
     (case priceAction f of
        None \<Rightarrow> score
      | Some pa \<Rightarrow>
          (case patterns pa of
             None \<Rightarrow> score
           | Some ps \<Rightarrow>
               (let score = (if c = GREEN \<and> ''hammer'' \<in> set ps then score + 0.2 else score);
                    score = (if c = RED \<and> ''shooting_star'' \<in> set ps then score + 0.2 else score)
                in score)))"

definition score_pullback :: "features \<Rightarrow> color \<Rightarrow> real \<Rightarrow> real" where
  "score_pullback f c score =
     (case pullback f of
        None \<Rightarrow> score
      | Some pb \<Rightarrow>
          (let score = (if trend pb = Some ''uptrend'' \<and> c = GREEN then score + 0.15 else score);
               score = (if trend pb = Some ''downtrend'' \<and> c = RED then score + 0.15 else score);
               score = (if js_gt (pullbacks pb) (Some 0) \<and> c = GREEN then score + 0.1 else score)
           in score))"

definition score_derived :: "features \<Rightarrow> color \<Rightarrow> real \<Rightarrow> real" where
  "score_derived f c score =
     (case derived f of
        None \<Rightarrow> score
      | Some d \<Rightarrow>
          (let score = (if c = GREEN \<and> js_gt (priceMomentum d) (Some 0) then score + 0.1 else score);
               score = (if c = RED \<and> js_lt (priceMomentum d) (Some 0) then score + 0.1 else score);
               score = (if c = GREEN \<and> js_gt (volumeTrend d) (Some 0) then score + 0.05 else score);
               score = (if c = RED \<and> js_lt (volumeTrend d) (Some 0) then score + 0.05 else score)
           in score))"

text \<open>\<^verbatim>\<open>calculateScore(features, color)\<close> is a method of the engine; the receiver is the
  first argument. The result is \<^verbatim>\<open>Math.max(0, Math.min(1, score))\<close>.\<close>

definition calculateScore :: "engine \<Rightarrow> features \<Rightarrow> color \<Rightarrow> real" where
  "calculateScore this f c =
     (let score = 0;
          score = score_technical f c score;
          score = score_priceAction f c score;
          score = score_pullback f c score;
          score = score_derived f c score
      in max 0 (min 1 score))"

subsection \<open>predict and getConfidence\<close>

text \<open>\<^verbatim>\<open>predict(features)\<close>. The argument \<open>rnd\<close> is the number \<^verbatim>\<open>Math.random()\<close> returns if
  the call consults it. A bundle that is \<^verbatim>\<open>null\<close> or \<^verbatim>\<open>undefined\<close> is \<open>None\<close>:
  \<^verbatim>\<open>calculateScore\<close> then throws a TypeError on its first property read, and the
  \<^verbatim>\<open>catch\<close> block answers at random.\<close>

definition predict :: "engine \<Rightarrow> real \<Rightarrow> features option \<Rightarrow> color" where
  "predict this rnd fo =
     (if \<not> isInitialized this then (if rnd > 0.5 then GREEN else RED)
      else (case fo of
              None \<Rightarrow> (if rnd > 0.5 then GREEN else RED)
            | Some f \<Rightarrow>
                (let greenScore = calculateScore this f GREEN;
                     redScore = calculateScore this f RED
                 in if greenScore > redScore then GREEN else RED)))"

text \<open>\<^verbatim>\<open>getConfidence(features)\<close>; \<^verbatim>\<open>Math.round\<close> rounds a half upwards, as \<open>round\<close>
  does. The \<^verbatim>\<open>catch\<close> block returns 50.\<close>

definition getConfidence :: "engine \<Rightarrow> features option \<Rightarrow> int" where
  "getConfidence this fo =
     (case fo of
        None \<Rightarrow> 50
      | Some f \<Rightarrow>
          (let greenScore = calculateScore this f GREEN;
               redScore = calculateScore this f RED;
               totalScore = greenScore + redScore
           in if totalScore = 0 then 50
              else (let maxScore = max greenScore redScore
                    in round ((maxScore / totalScore) * 100))))"

subsection \<open>The training simulator\<close>

text \<open>A prepared training sample, with the two fields the training loop reads.\<close>

record sample =
  sample_features :: features
  target :: color

text \<open>The object \<^verbatim>\<open>simulateTraining\<close> returns. \<open>accuracy\<close> is
  \<^verbatim>\<open>(correct / total) * 100\<close>; with \<open>total = 0\<close> the quotient is NaN in the source, which
  is \<open>None\<close> here.\<close>

record training_results =
  accuracy :: "real option"
  correct :: nat
  total :: nat
  result_epochs :: int

text \<open>What a call of \<^verbatim>\<open>train\<close> reports: the warning that training was skipped, or the
  results it logs and saves.\<close>

datatype train_report = Skipped | Trained training_results

text \<open>The innermost loop, \<^verbatim>\<open>for (const sample of batch)\<close>, on the counters
  \<open>(correct, total)\<close>. \<open>rnd k\<close> is the number \<^verbatim>\<open>Math.random()\<close> returns in the call of
  \<^verbatim>\<open>predict\<close> that is made when \<open>total = k\<close>, should that call consult it.\<close>

fun sample_loop :: "engine \<Rightarrow> (nat \<Rightarrow> real) \<Rightarrow> sample list \<Rightarrow> nat \<times> nat \<Rightarrow> nat \<times> nat" where
  "sample_loop this rnd [] (c, t) = (c, t)"
| "sample_loop this rnd (s # batch) (c, t) =
     (let prediction = predict this (rnd t) (Some (sample_features s));
          actual = target s
      in sample_loop this rnd batch ((if prediction = actual then c + 1 else c), t + 1))"

text \<open>The loop over the batches,
  \<^verbatim>\<open>for (let i = 0; i < trainingData.length; i += this.batchSize)\<close>. It does not
  terminate when the batch size is not positive and there is a sample, so the model is a
  partial function: \<open>None\<close> stands for a loop that never ends.\<close>

partial_function (option) batch_loop ::
  "engine \<Rightarrow> (nat \<Rightarrow> real) \<Rightarrow> sample list \<Rightarrow> int \<Rightarrow> nat \<times> nat \<Rightarrow> (nat \<times> nat) option" where
  "batch_loop this rnd trainingData i ct =
     (if i < int (length trainingData) then
        (let batch = js_slice trainingData i (i + batchSize this)
         in batch_loop this rnd trainingData (i + batchSize this) (sample_loop this rnd batch ct))
      else Some ct)"

text \<open>The loop over the epochs, \<^verbatim>\<open>for (let epoch = 0; epoch < this.epochs; epoch++)\<close>, as a
  count-down of the epochs that remain.\<close>

fun epoch_loop :: "engine \<Rightarrow> (nat \<Rightarrow> real) \<Rightarrow> sample list \<Rightarrow> nat \<Rightarrow> nat \<times> nat \<Rightarrow> (nat \<times> nat) option" where
  "epoch_loop this rnd trainingData 0 ct = Some ct"
| "epoch_loop this rnd trainingData (Suc n) ct =
     (case batch_loop this rnd trainingData 0 ct of
        None \<Rightarrow> None
      | Some ct' \<Rightarrow> epoch_loop this rnd trainingData n ct')"

definition simulateTraining :: "engine \<Rightarrow> (nat \<Rightarrow> real) \<Rightarrow> sample list \<Rightarrow> training_results option" where
  "simulateTraining this rnd trainingData =
     (case epoch_loop this rnd trainingData (nat (epochs this)) (0, 0) of
        None \<Rightarrow> None
      | Some (c, t) \<Rightarrow>
          Some \<lparr>accuracy = (if t = 0 then None else Some ((real c / real t) * 100)),
                correct = c, total = t, result_epochs = epochs this\<rparr>)"

text \<open>\<^verbatim>\<open>updateWeights(results)\<close>: both branches visit every category and every feature of it
  and multiply the entry in place. A comparison with NaN is false.\<close>

definition scale_weights :: "real \<Rightarrow> weight_table \<Rightarrow> weight_table" where
  "scale_weights k w =
     map (\<lambda>(category, fs). (category, map (\<lambda>(feature, v). (feature, v * k)) fs)) w"

definition updateWeights :: "engine \<Rightarrow> training_results \<Rightarrow> engine" where
  "updateWeights this results =
     (if js_gt (accuracy results) (Some 80) then
        this\<lparr>weights := scale_weights 1.01 (weights this)\<rparr>
      else if js_lt (accuracy results) (Some 60) then
        this\<lparr>weights := scale_weights 0.99 (weights this)\<rparr>
      else this)"

text \<open>\<^verbatim>\<open>train(data, options)\<close>, from the point where \<^verbatim>\<open>prepareTrainingData\<close> has returned
  the samples \<open>trainingData\<close>. The result is the engine after the call and the report;
  \<open>None\<close> is a call that does not return. Saving the results to the database is outside the
  model (its errors are caught and logged).\<close>

definition train :: "engine \<Rightarrow> (nat \<Rightarrow> real) \<Rightarrow> sample list \<Rightarrow> (engine \<times> train_report) option" where
  "train this rnd trainingData =
     (if length trainingData < 100 then Some (this, Skipped)
      else (case simulateTraining this rnd trainingData of
              None \<Rightarrow> None
            | Some results \<Rightarrow> Some (updateWeights this results, Trained results)))"

subsection \<open>The evidence rules, as the specification lists them\<close>

text \<open>The specification describes scoring as a list of evidence rules, each of which either
  fires for a direction or does not. \<open>fires r f c\<close> is the condition under which the
  statements of \<^verbatim>\<open>calculateScore\<close> for the rule \<open>r\<close> add to the score of direction \<open>c\<close>,
  and \<open>amount r\<close> is the literal they add.\<close>

datatype rule = Oscillator | Convergence | Band | Pattern | Trend | Pullback | Momentum | VolumeTrend

fun amount :: "rule \<Rightarrow> real" where
  "amount Oscillator = 0.1"
| "amount Convergence = 0.15"
| "amount Band = 0.2"
| "amount Pattern = 0.2"
| "amount Trend = 0.15"
| "amount Pullback = 0.1"
| "amount Momentum = 0.1"
| "amount VolumeTrend = 0.05"

fun fires :: "rule \<Rightarrow> features \<Rightarrow> color \<Rightarrow> bool" where
  "fires Oscillator f c =
     (case technical f of None \<Rightarrow> False | Some tech \<Rightarrow>
        (case rsi tech of None \<Rightarrow> False | Some r \<Rightarrow>
           (case c of GREEN \<Rightarrow> r < 70 | RED \<Rightarrow> r > 30)))"
| "fires Convergence f c =
     (case technical f of None \<Rightarrow> False | Some tech \<Rightarrow>
        (case (macd tech, macdSignal tech) of
           (Some m, Some s) \<Rightarrow> (case c of GREEN \<Rightarrow> m > s | RED \<Rightarrow> m < s)
         | _ \<Rightarrow> False))"
| "fires Band f c =
     (case (technical f, market f) of
        (Some tech, Some mk) \<Rightarrow>
          (case (bollingerLower tech, bollingerUpper tech, market_price mk) of
             (Some lo, Some up, Some p) \<Rightarrow>
                lo \<noteq> 0 \<and> up \<noteq> 0 \<and> p \<noteq> 0 \<and> (case c of GREEN \<Rightarrow> p < lo | RED \<Rightarrow> p > up)
           | _ \<Rightarrow> False)
      | _ \<Rightarrow> False)"
| "fires Pattern f c =
     (case priceAction f of None \<Rightarrow> False | Some pa \<Rightarrow>
        (case patterns pa of None \<Rightarrow> False | Some ps \<Rightarrow>
           (case c of GREEN \<Rightarrow> ''hammer'' \<in> set ps | RED \<Rightarrow> ''shooting_star'' \<in> set ps)))"
| "fires Trend f c =
     (case pullback f of None \<Rightarrow> False | Some pb \<Rightarrow>
        (case c of GREEN \<Rightarrow> trend pb = Some ''uptrend'' | RED \<Rightarrow> trend pb = Some ''downtrend''))"
| "fires Pullback f c =
     (case pullback f of None \<Rightarrow> False | Some pb \<Rightarrow>
        (case pullbacks pb of None \<Rightarrow> False | Some n \<Rightarrow> n > 0 \<and> c = GREEN))"
| "fires Momentum f c =
     (case derived f of None \<Rightarrow> False | Some d \<Rightarrow>
        (case priceMomentum d of None \<Rightarrow> False | Some m \<Rightarrow>
           (case c of GREEN \<Rightarrow> m > 0 | RED \<Rightarrow> m < 0)))"
| "fires VolumeTrend f c =
     (case derived f of None \<Rightarrow> False | Some d \<Rightarrow>
        (case volumeTrend d of None \<Rightarrow> False | Some v \<Rightarrow>
           (case c of GREEN \<Rightarrow> v > 0 | RED \<Rightarrow> v < 0)))"

definition all_rules :: "rule list" where
  "all_rules = [Oscillator, Convergence, Band, Pattern, Trend, Pullback, Momentum, VolumeTrend]"

definition contribution :: "rule \<Rightarrow> features \<Rightarrow> color \<Rightarrow> real" where
  "contribution r f c = (if fires r f c then amount r else 0)"

subsection \<open>calculateScore and getConfidence in double precision\<close>

text \<open>The confidence is an integer that \<^verbatim>\<open>Math.round\<close> returns, and the sums, the quotient
  and the product before it are rounded to doubles; the definitions below repeat
  \<^verbatim>\<open>calculateScore\<close> and \<^verbatim>\<open>getConfidence\<close> statement by statement with every operation in
  double precision. The values of a feature bundle are only compared, which is exact.\<close>

definition score_technical_double :: "features \<Rightarrow> color \<Rightarrow> jsnum \<Rightarrow> jsnum" where
  "score_technical_double f c score =
     (case technical f of
        None \<Rightarrow> score
      | Some tech \<Rightarrow>
          (let score = (if rsi tech \<noteq> None then
                          (let score = (if c = GREEN \<and> js_lt (rsi tech) (Some 70)
                                        then num_add score (lit 0.1) else score);
                               score = (if c = RED \<and> js_gt (rsi tech) (Some 30)
                                        then num_add score (lit 0.1) else score)
                           in score)
                        else score);
               score = (if macd tech \<noteq> None \<and> macdSignal tech \<noteq> None then
                          (let score = (if c = GREEN \<and> js_gt (macd tech) (macdSignal tech)
                                        then num_add score (lit 0.15) else score);
                               score = (if c = RED \<and> js_lt (macd tech) (macdSignal tech)
                                        then num_add score (lit 0.15) else score)
                           in score)
                        else score);
               score = (if truthy (bollingerLower tech) \<and> truthy (bollingerUpper tech)
                           \<and> truthy (case market f of None \<Rightarrow> None | Some m \<Rightarrow> market_price m) then
                          (let p = (case market f of None \<Rightarrow> None | Some m \<Rightarrow> market_price m);
                               score = (if c = GREEN \<and> js_lt p (bollingerLower tech)
                                        then num_add score (lit 0.2) else score);
                               score = (if c = RED \<and> js_gt p (bollingerUpper tech)
                                        then num_add score (lit 0.2) else score)
                           in score)
                        else score)
           in score))"

definition score_priceAction_double :: "features \<Rightarrow> color \<Rightarrow> jsnum \<Rightarrow> jsnum" where
  "score_priceAction_double f c score =
     (case priceAction f of
        None \<Rightarrow> score
      | Some pa \<Rightarrow>
          (case patterns pa of
             None \<Rightarrow> score
           | Some ps \<Rightarrow>
               (let score = (if c = GREEN \<and> ''hammer'' \<in> set ps
                             then num_add score (lit 0.2) else score);
                    score = (if c = RED \<and> ''shooting_star'' \<in> set ps
                             then num_add score (lit 0.2) else score)
                in score)))"

definition score_pullback_double :: "features \<Rightarrow> color \<Rightarrow> jsnum \<Rightarrow> jsnum" where
  "score_pullback_double f c score =
     (case pullback f of
        None \<Rightarrow> score
      | Some pb \<Rightarrow>
          (let score = (if trend pb = Some ''uptrend'' \<and> c = GREEN
                        then num_add score (lit 0.15) else score);
               score = (if trend pb = Some ''downtrend'' \<and> c = RED
                        then num_add score (lit 0.15) else score);
               score = (if js_gt (pullbacks pb) (Some 0) \<and> c = GREEN
                        then num_add score (lit 0.1) else score)
           in score))"

definition score_derived_double :: "features \<Rightarrow> color \<Rightarrow> jsnum \<Rightarrow> jsnum" where
  "score_derived_double f c score =
     (case derived f of
        None \<Rightarrow> score
      | Some d \<Rightarrow>
          (let score = (if c = GREEN \<and> js_gt (priceMomentum d) (Some 0)
                        then num_add score (lit 0.1) else score);
               score = (if c = RED \<and> js_lt (priceMomentum d) (Some 0)
                        then num_add score (lit 0.1) else score);
               score = (if c = GREEN \<and> js_gt (volumeTrend d) (Some 0)
                        then num_add score (lit 0.05) else score);
               score = (if c = RED \<and> js_lt (volumeTrend d) (Some 0)
                        then num_add score (lit 0.05) else score)
           in score))"

text \<open>\<^verbatim>\<open>let score = 0\<close>, the four blocks, and \<^verbatim>\<open>Math.max(0, Math.min(1, score))\<close>.\<close>

definition calculateScore_double :: "engine \<Rightarrow> features \<Rightarrow> color \<Rightarrow> jsnum" where
  "calculateScore_double this f c =
     (let score = lit 0;
          score = score_technical_double f c score;
          score = score_priceAction_double f c score;
          score = score_pullback_double f c score;
          score = score_derived_double f c score
      in num_max (lit 0) (num_min (lit 1) score))"

text \<open>\<^verbatim>\<open>getConfidence(features)\<close>; \<^verbatim>\<open>totalScore === 0\<close> holds for either zero.\<close>

definition getConfidence_double :: "engine \<Rightarrow> features option \<Rightarrow> jsnum" where
  "getConfidence_double this fo =
     (case fo of
        None \<Rightarrow> lit 50
      | Some f \<Rightarrow>
          (let greenScore = calculateScore_double this f GREEN;
               redScore = calculateScore_double this f RED;
               totalScore = num_add greenScore redScore
           in if is_zero totalScore then lit 50
              else (let maxScore = num_max greenScore redScore
                    in num_round (num_mul (num_div maxScore totalScore) (lit 100)))))"

text \<open>One evidence rule applied to the running score in double precision, and the
  range a running score stays in: it is finite, zero or at least \<open>1/25\<close>, and at most a
  quarter per statement executed.\<close>

definition rule_step :: "features \<Rightarrow> color \<Rightarrow> rule \<Rightarrow> jsnum \<Rightarrow> jsnum" where
  "rule_step f c r score = (if fires r f c then num_add score (lit (amount r)) else score)"

definition score_ok :: "nat \<Rightarrow> jsnum \<Rightarrow> bool" where
  "score_ok n s = (case s of Fin x \<Rightarrow> (x = 0 \<or> 1 / 25 \<le> x) \<and> x \<le> real n / 4 | _ \<Rightarrow> False)"

subsection \<open>Concrete engines and bundles\<close>

text \<open>A bundle with no section at all, a bundle whose only field is the oscillator, and the
  engine after \<^verbatim>\<open>initialize()\<close> has set \<^verbatim>\<open>isInitialized\<close>.\<close>

definition no_features :: features where
  "no_features = \<lparr>technical = None, priceAction = None, pullback = None, market = None, derived = None\<rparr>"

definition oscillator_only :: "real \<Rightarrow> features" where
  "oscillator_only r = no_features\<lparr>technical := Some \<lparr>rsi = Some r, macd = None, macdSignal = None,
      bollingerLower = None, bollingerUpper = None\<rparr>\<rparr>"

definition initialized_engine :: engine where
  "initialized_engine = new_AIEngine\<lparr>isInitialized := True\<rparr>"

text \<open>A bundle on which the rounding of the sums decides the result: oscillator 80, a
  hammer and a shooting star, an uptrend with one pullback, and a rising volume.\<close>

definition rounding_bundle :: features where
  "rounding_bundle =
     \<lparr>technical = Some \<lparr>rsi = Some 80, macd = None, macdSignal = None,
                         bollingerLower = None, bollingerUpper = None\<rparr>,
      priceAction = Some \<lparr>patterns = Some [''hammer'', ''shooting_star'']\<rparr>,
      pullback = Some \<lparr>trend = Some ''uptrend'', pullbacks = Some 1\<rparr>,
      market = None,
      derived = Some \<lparr>priceMomentum = None, volumeTrend = Some 1\<rparr>\<rparr>"

text \<open>One hundred prepared samples, each with the empty bundle and the target RED.\<close>

definition hundred_red :: "sample list" where
  "hundred_red = replicate 100 \<lparr>sample_features = no_features, target = RED\<rparr>"

section \<open>The relative-strength oscillator (DataCollector.js)\<close>

text \<open>What \<^verbatim>\<open>calculateRSI\<close> returns: \<^verbatim>\<open>null\<close>, the number NaN, or a number.\<close>

datatype rsi_result = Null | NaN | Rsi real

text \<open>The loop \<^verbatim>\<open>for (let i = 1; i <= period; i++)\<close> with its two accumulators. The
  guard before the loop makes every index it reads lie inside the array.\<close>

function rsi_loop :: "real list \<Rightarrow> nat \<Rightarrow> nat \<Rightarrow> real \<times> real \<Rightarrow> real \<times> real" where
  "rsi_loop prices period i (gains, losses) =
     (if i \<le> period then
        (let change = prices ! i - prices ! (i - 1)
         in rsi_loop prices period (i + 1)
              (if change > 0 then (gains + change, losses)
               else (gains, losses + \<bar>change\<bar>)))
      else (gains, losses))"
  by pat_completeness auto
termination
  by (relation "measure (\<lambda>(prices, period, i, acc). period + 1 - i)") auto

text \<open>The equation of the loop is applied where it is wanted, not by the simplifier on its
  own.\<close>

declare rsi_loop.simps [simp del]

text \<open>\<^verbatim>\<open>calculateRSI(prices, period)\<close>. With \<open>period = 0\<close> both averages are the quotient
  \<open>0 / 0\<close>, which is NaN in the source, and NaN is what the function then returns.\<close>

definition calculateRSI :: "real list \<Rightarrow> nat \<Rightarrow> rsi_result" where
  "calculateRSI prices period =
     (if length prices < period + 1 then Null
      else (let (gains, losses) = rsi_loop prices period 1 (0, 0)
            in if period = 0 then NaN
               else (let avgGain = gains / real period;
                         avgLoss = losses / real period
                     in if avgLoss = 0 then Rsi 100
                        else (let rs = avgGain / avgLoss
                              in Rsi (100 - (100 / (1 + rs)))))))"

subsection \<open>The oscillator as the specification words it\<close>

text \<open>The transitions of a sequence are the differences of neighbouring samples; the
  specification averages the positive and the negative ones among the last \<open>period\<close>.\<close>

definition transitions :: "real list \<Rightarrow> real list" where
  "transitions prices = map (\<lambda>(a, b). b - a) (zip prices (tl prices))"

definition rsi_of_transitions :: "real list \<Rightarrow> nat \<Rightarrow> real" where
  "rsi_of_transitions ds period =
     (let avgGain = (\<Sum>d\<leftarrow>ds. max d 0) / real period;
          avgLoss = (\<Sum>d\<leftarrow>ds. max (- d) 0) / real period
      in if avgLoss = 0 then 100 else 100 - 100 / (1 + avgGain / avgLoss))"

definition rsi_last_transitions :: "real list \<Rightarrow> nat \<Rightarrow> real" where
  "rsi_last_transitions prices period =
     rsi_of_transitions (js_slice_from (transitions prices) (- int period)) period"

definition rsi_first_transitions :: "real list \<Rightarrow> nat \<Rightarrow> real" where
  "rsi_first_transitions prices period =
     rsi_of_transitions (take period (transitions prices)) period"

text \<open>Sixteen samples: fourteen gains of 1, then a loss of 1.\<close>

definition rising_then_dip :: "real list" where
  "rising_then_dip = [1, 2, 3, 4, 5, 6, 7, 8, 9, 10, 11, 12, 13, 14, 15, 14]"

section \<open>The pullback analyzer (SignalGenerator.js)\<close>

text \<open>An observation of the market-data window, with the fields the analyzer and the
  validator read. \<open>timestamp\<close> is the value of
  \<^verbatim>\<open>new Date(d.timestamp).getTime()\<close> in milliseconds, \<open>None\<close> when the date does not
  parse (the source then computes with NaN).\<close>

record observation =
  price :: real
  volume :: "real option"
  timestamp :: "int option"

text \<open>The analyzer compares prices and divides their differences, and its verdict is a
  comparison of a mean of quotients against a threshold, so it computes in double
  precision. The price of an observation is a finite number, \<open>Fin (price d)\<close>.\<close>

record extremum =
  index :: nat
  ext_price :: jsnum

record pullback_info =
  startIndex :: nat
  valleyIndex :: nat
  endIndex :: nat
  peakPrice :: jsnum
  valleyPrice :: jsnum
  nextPeakPrice :: jsnum
  depth :: jsnum
  recovery :: jsnum
  strength :: jsnum

record pullback_metrics =
  avgDepth :: jsnum
  avgRecovery :: jsnum
  maxDepth :: jsnum
  minDepth :: jsnum
  successRate :: jsnum

record pullback_analysis =
  hasValidPullback :: bool
  found_pullbacks :: "pullback_info list"
  metrics :: pullback_metrics
  peaks :: nat
  valleys :: nat

text \<open>\<^verbatim>\<open>findPeaks\<close> and \<^verbatim>\<open>findValleys\<close>: the loop runs over \<open>i = 1, ..., length - 2\<close> and
  pushes the index when the sample is strictly above (below) both neighbours.\<close>

definition findPeaks :: "jsnum list \<Rightarrow> extremum list" where
  "findPeaks prices =
     map (\<lambda>i. \<lparr>index = i, ext_price = prices ! i\<rparr>)
       (filter (\<lambda>i. num_greater (prices ! i) (prices ! (i - 1))
                  \<and> num_greater (prices ! i) (prices ! (i + 1)))
          [1 ..< length prices - 1])"

definition findValleys :: "jsnum list \<Rightarrow> extremum list" where
  "findValleys prices =
     map (\<lambda>i. \<lparr>index = i, ext_price = prices ! i\<rparr>)
       (filter (\<lambda>i. num_less (prices ! i) (prices ! (i - 1))
                  \<and> num_less (prices ! i) (prices ! (i + 1)))
          [1 ..< length prices - 1])"

text \<open>The indices \<open>findPeaks\<close> records, on their own.\<close>

definition peak_indices :: "jsnum list \<Rightarrow> nat list" where
  "peak_indices prices =
     filter (\<lambda>i. num_greater (prices ! i) (prices ! (i - 1))
                \<and> num_greater (prices ! i) (prices ! (i + 1)))
       [1 ..< length prices - 1]"

text \<open>\<^verbatim>\<open>xs.reduce((a, b) => a + b, 0)\<close> on doubles: the sum is taken from the left, and each
  partial sum is rounded.\<close>

definition reduce_sum_double :: "jsnum list \<Rightarrow> jsnum" where
  "reduce_sum_double xs = foldl (\<lambda>a b. num_add a b) (lit 0) xs"

text \<open>The length of an array, as a number.\<close>

definition num_of_nat :: "nat \<Rightarrow> jsnum" where
  "num_of_nat n = Fin (real n)"

text \<open>\<^verbatim>\<open>calculatePullbackStrength(pullbacks, prices)\<close>, which reads three indices of each
  pullback. The analyzer calls it with indices that \<open>findPeaks\<close> and \<open>findValleys\<close> found,
  which lie inside the array.\<close>

definition calculatePullbackStrength :: "(nat \<times> nat \<times> nat) list \<Rightarrow> jsnum list \<Rightarrow> jsnum" where
  "calculatePullbackStrength pbs prices =
     (if length pbs = 0 then lit 0
      else (let strengths =
                  map (\<lambda>(s, v, e).
                         (let startPrice = prices ! s;
                              valleyPrice = prices ! v;
                              endPrice = prices ! e;
                              depth = num_div (num_sub startPrice valleyPrice) startPrice;
                              recovery = num_div (num_sub endPrice valleyPrice) valleyPrice
                          in num_mul depth recovery)) pbs
            in num_div (reduce_sum_double strengths) (num_of_nat (length strengths))))"

text \<open>\<^verbatim>\<open>identifyPullbacks\<close>: for each peak but the last, the next peak in the array and the
  first valley (\<^verbatim>\<open>valleys.find\<close>) whose index lies strictly between the two.\<close>

fun identifyPullbacks :: "extremum list \<Rightarrow> extremum list \<Rightarrow> jsnum list \<Rightarrow> pullback_info list" where
  "identifyPullbacks (peak # nextPeak # rest) vs prices =
     (case find (\<lambda>v. index v > index peak \<and> index v < index nextPeak) vs of
        None \<Rightarrow> []
      | Some valleyBetween \<Rightarrow>
          [\<lparr>startIndex = index peak,
            valleyIndex = index valleyBetween,
            endIndex = index nextPeak,
            peakPrice = ext_price peak,
            valleyPrice = ext_price valleyBetween,
            nextPeakPrice = ext_price nextPeak,
            depth = num_div (num_sub (ext_price peak) (ext_price valleyBetween)) (ext_price peak),
            recovery = num_div (num_sub (ext_price nextPeak) (ext_price valleyBetween))
                         (ext_price valleyBetween),
            strength = calculatePullbackStrength
                         [(index peak, index valleyBetween, index nextPeak)] prices\<rparr>])
     @ identifyPullbacks (nextPeak # rest) vs prices"
| "identifyPullbacks ps vs prices = []"

text \<open>\<^verbatim>\<open>Math.max(...xs)\<close> and \<^verbatim>\<open>Math.min(...xs)\<close>: the scan starts from \<open>-\<infinity>\<close> and from
  \<open>+\<infinity>\<close>.\<close>

definition max_of :: "jsnum list \<Rightarrow> jsnum" where
  "max_of xs = foldl num_max MinusInfinity xs"

definition min_of :: "jsnum list \<Rightarrow> jsnum" where
  "min_of xs = foldl num_min PlusInfinity xs"

definition calculatePullbackMetrics :: "pullback_info list \<Rightarrow> pullback_metrics" where
  "calculatePullbackMetrics pbs =
     (if length pbs = 0 then
        \<lparr>avgDepth = lit 0, avgRecovery = lit 0, maxDepth = lit 0, minDepth = lit 0,
          successRate = lit 0\<rparr>
      else (let depths = map depth pbs;
                recoveries = map recovery pbs
            in \<lparr>avgDepth = num_div (reduce_sum_double depths) (num_of_nat (length depths)),
                avgRecovery = num_div (reduce_sum_double recoveries)
                                (num_of_nat (length recoveries)),
                maxDepth = max_of depths,
                minDepth = min_of depths,
                successRate = num_div
                                (num_of_nat (length (filter (\<lambda>r. num_greater r (lit 0.5)) recoveries)))
                                (num_of_nat (length recoveries))\<rparr>))"

text \<open>\<^verbatim>\<open>analyzePullbacks(marketData)\<close>, with the fields of its result that the validity
  test is computed from, and the two counts.\<close>

definition analyzePullbacks :: "observation list \<Rightarrow> pullback_analysis" where
  "analyzePullbacks marketData =
     (let prices = map (\<lambda>d. Fin (price d)) marketData;
          pks = findPeaks prices;
          vls = findValleys prices;
          pbs = identifyPullbacks pks vls prices;
          m = calculatePullbackMetrics pbs
      in \<lparr>hasValidPullback = (length pbs > 0 \<and> num_greater (avgDepth m) (lit 0.02)),
          found_pullbacks = pbs,
          metrics = m,
          peaks = length pks,
          valleys = length vls\<rparr>)"

text \<open>A strict local maximum (minimum) away from the boundary, as the data model of the
  specification defines a peak (valley).\<close>

definition is_peak :: "jsnum list \<Rightarrow> nat \<Rightarrow> bool" where
  "is_peak prices i =
     (0 < i \<and> i + 1 < length prices
      \<and> num_less (prices ! (i - 1)) (prices ! i) \<and> num_less (prices ! (i + 1)) (prices ! i))"

definition is_valley :: "jsnum list \<Rightarrow> nat \<Rightarrow> bool" where
  "is_valley prices i =
     (0 < i \<and> i + 1 < length prices
      \<and> num_less (prices ! i) (prices ! (i - 1)) \<and> num_less (prices ! i) (prices ! (i + 1)))"

text \<open>The mean depth of a list of pullbacks, as double arithmetic computes a mean: the
  depths are added from the left and the sum is divided by their number.\<close>

definition mean_depth :: "pullback_info list \<Rightarrow> jsnum" where
  "mean_depth pbs =
     num_div (foldl (\<lambda>a b. num_add a b) (Fin 0) (map depth pbs)) (Fin (real (length pbs)))"

text \<open>The prices of a window, as the analyzer reads them.\<close>

definition prices_of :: "observation list \<Rightarrow> jsnum list" where
  "prices_of marketData = map (\<lambda>d. Fin (price d)) marketData"

text \<open>A window that rises to 100, falls back to 97 and recovers to 101, and a window with
  two pullbacks of depths \<open>1/117\<close> and \<open>92/2925\<close>, whose exact mean is \<open>0.02\<close>.\<close>

definition obs :: "real \<Rightarrow> observation" where
  "obs p = \<lparr>price = p, volume = Some 5000, timestamp = Some 0\<rparr>"

definition dip_window :: "observation list" where
  "dip_window = map obs [98, 100, 97, 101, 99]"

definition threshold_window :: "observation list" where
  "threshold_window = map obs [100, 117, 116, 2925, 2833, 3000, 2000]"

section \<open>The signal validator (SignalGenerator.js)\<close>

record generator =
  confidenceThreshold :: int
  pullbackAnalysisDepth :: int
  isRunning :: bool

text \<open>The constructor, with the environment variables unset.\<close>

definition new_SignalGenerator :: generator where
  "new_SignalGenerator = \<lparr>confidenceThreshold = 85, pullbackAnalysisDepth = 20, isRunning = False\<rparr>"

text \<open>The fields of a signal that \<^verbatim>\<open>validateSignal\<close> reads;
  \<open>pullbackAnalysis\<close> is \<^verbatim>\<open>signal.technicalAnalysis.pullbackAnalysis\<close>.\<close>

record signal =
  confidence :: int
  pullbackAnalysis :: "pullback_analysis option"

text \<open>\<^verbatim>\<open>xs.reduce((a, b) => a + b, 0)\<close>.\<close>

definition reduce_sum :: "real list \<Rightarrow> real" where
  "reduce_sum xs = foldl (\<lambda>a b. a + b) 0 xs"

text \<open>\<^verbatim>\<open>calculateVolatility(prices)\<close>: the population standard deviation of the relative
  changes of neighbouring prices.\<close>

definition calculateVolatility :: "real list \<Rightarrow> real" where
  "calculateVolatility prices =
     (if length prices < 2 then 0
      else (let returns = map (\<lambda>i. (prices ! i - prices ! (i - 1)) / prices ! (i - 1))
                            [1 ..< length prices];
                mean = reduce_sum returns / real (length returns);
                variance = foldl (\<lambda>sum ret. sum + (ret - mean)\<^sup>2) 0 returns
                             / real (length returns)
            in sqrt variance))"

text \<open>\<^verbatim>\<open>validateSignal(signal, marketData)\<close>; \<open>now\<close> is the value of \<^verbatim>\<open>Date.now()\<close>. On an
  empty window \<^verbatim>\<open>latestData\<close> is undefined, reading its timestamp throws, and the
  \<^verbatim>\<open>catch\<close> block returns false.\<close>

definition validateSignal :: "generator \<Rightarrow> int \<Rightarrow> signal \<Rightarrow> observation list \<Rightarrow> bool" where
  "validateSignal this now sig marketData =
     (if confidence sig < confidenceThreshold this then False
      else if marketData = [] then False
      else (let latestData = last marketData;
                dataAge = map_option (\<lambda>t. real_of_int (now - t)) (timestamp latestData)
            in if js_gt dataAge (Some 300000) then False
               else if truthy (volume latestData) \<and> js_lt (volume latestData) (Some 1000)
                    then False
               else (let prices = map price (js_slice_from marketData (- 10));
                         volatility = calculateVolatility prices
                     in if volatility < 0.001 then False
                        else (case pullbackAnalysis sig of
                                None \<Rightarrow> True
                              | Some pb \<Rightarrow> (if \<not> hasValidPullback pb then False else True)))))"

text \<open>A window of three observations whose prices rise by a tenth and fall by a tenth,
  taken at the moment of validation, with the volume given.\<close>

definition swing_window :: "real option \<Rightarrow> observation list" where
  "swing_window v = map (\<lambda>p. \<lparr>price = p, volume = v, timestamp = Some 1000\<rparr>) [100, 110, 99]"

definition confident_signal :: signal where
  "confident_signal = \<lparr>confidence = 100, pullbackAnalysis = None\<rparr>"

section \<open>Properties of double-precision arithmetic\<close>

text \<open>Evaluation of a rounding on a numeral unfolds these equations.\<close>

lemmas eval_double = round_to_double_def nearest_double_def round_half_even_def binade_def
  pow2_def ilog2_up.simps ilog2_down.simps Let_def

lemma pow2_powr: "pow2 e = 2 powr (real_of_int e)"
proof (cases "0 \<le> e")
  case True
  have "(2::real) powr real_of_int e = 2 powr real (nat e)" using True by simp
  also have "\<dots> = 2 ^ nat e" by (rule powr_realpow) simp
  finally show ?thesis using True by (simp add: pow2_def)
next
  case False
  have "(2::real) powr real_of_int e = 2 powr (- real (nat (- e)))" using False by simp
  also have "\<dots> = 1 / 2 powr real (nat (- e))" by (rule powr_minus_divide)
  also have "2 powr real (nat (- e)) = (2::real) ^ nat (- e)" by (rule powr_realpow) simp
  finally show ?thesis using False by (simp add: pow2_def)
qed

lemma pow2_pos: "0 < pow2 e"
  by (simp add: pow2_powr)

lemma pow2_mono: "a \<le> b \<Longrightarrow> pow2 a \<le> pow2 b"
  by (simp add: pow2_powr)

lemma pow2_less_cancel: "pow2 a < pow2 b \<Longrightarrow> a < b"
  by (simp add: pow2_powr)

lemma pow2_add: "pow2 (a + b) = pow2 a * pow2 b"
  by (simp add: pow2_powr powr_add)

lemma ilog2_up_bounds:
  "1 \<le> x \<Longrightarrow> 2 ^ ilog2_up x \<le> x \<and> x < 2 * 2 ^ ilog2_up x"
proof (induction x rule: ilog2_up.induct)
  case (1 x)
  show ?case
  proof (cases "x < 2")
    case True
    then have "ilog2_up x = 0" by (subst ilog2_up.simps) simp
    with True "1.prems" show ?thesis by simp
  next
    case False
    then have k: "ilog2_up x = Suc (ilog2_up (x / 2))" by (subst ilog2_up.simps) simp
    have "1 \<le> x / 2" using False by simp
    from "1.IH" [OF False this] show ?thesis by (simp add: k)
  qed
qed

lemma ilog2_down_bounds:
  "0 < x \<Longrightarrow> x < 1 \<Longrightarrow> 1 \<le> x * 2 ^ ilog2_down x \<and> x * 2 ^ ilog2_down x < 2"
proof (induction x rule: ilog2_down.induct)
  case (1 x)
  have k: "ilog2_down x = Suc (ilog2_down (x * 2))"
    using "1.prems" by (subst ilog2_down.simps) simp
  have c: "\<not> (x \<le> 0 \<or> 1 \<le> x)" using "1.prems" by simp
  show ?case
  proof (cases "x * 2 < 1")
    case True
    have "0 < x * 2" using "1.prems" by simp
    from "1.IH" [OF c this True] show ?thesis by (simp add: k mult.assoc)
  next
    case False
    then have "ilog2_down (x * 2) = 0" by (subst ilog2_down.simps) simp
    with False "1.prems" show ?thesis by (simp add: k)
  qed
qed

lemma ilog2_down_pos: "0 < x \<Longrightarrow> x < 1 \<Longrightarrow> 0 < ilog2_down x"
  by (subst ilog2_down.simps) simp

lemma binade_bounds:
  assumes "0 < x"
  shows "pow2 (binade x) \<le> x \<and> x < pow2 (binade x + 1)"
proof (cases "1 \<le> x")
  case True
  from ilog2_up_bounds [OF True] show ?thesis
    using True by (simp add: binade_def pow2_def nat_add_distrib)
next
  case False
  then have x: "x < 1" by simp
  define k where "k = ilog2_down x"
  have kpos: "0 < k" unfolding k_def using assms x by (rule ilog2_down_pos)
  have b: "1 \<le> x * 2 ^ k" "x * 2 ^ k < 2"
    using ilog2_down_bounds [OF assms x] by (simp_all add: k_def)
  have e: "binade x = - int k" using False by (simp add: binade_def k_def)
  have lo: "pow2 (- int k) \<le> x"
    using b(1) kpos by (simp add: pow2_def field_simps)
  obtain j where j: "k = Suc j" using kpos by (cases k) simp_all
  have "pow2 (- int k + 1) = 1 / 2 ^ j"
    by (simp add: pow2_def j)
  moreover have "x < 1 / 2 ^ j" using b(2) by (simp add: j field_simps)
  ultimately show ?thesis using lo e by simp
qed

lemma round_half_even_error: "\<bar>real_of_int (round_half_even n) - n\<bar> \<le> 1 / 2"
  unfolding round_half_even_def Let_def by (auto; linarith)

lemma nearest_double_error:
  assumes "pow2 (- 1022) \<le> x"
  shows "\<bar>nearest_double x - x\<bar> \<le> x / 2 ^ 53"
proof -
  have xpos: "0 < x" using assms pow2_pos [of "- 1022"] by linarith
  define e where "e = binade x"
  have b: "pow2 e \<le> x" "x < pow2 (e + 1)"
    using binade_bounds [OF xpos] by (simp_all add: e_def)
  have "pow2 (- 1022) < pow2 (e + 1)" using assms b(2) by linarith
  then have "- 1022 < e + 1" by (rule pow2_less_cancel)
  then have m: "max (binade x) (- 1022) = binade x" by (simp add: e_def)
  define u where "u = pow2 (e - 52)"
  have upos: "0 < u" by (simp add: u_def pow2_pos)
  have "pow2 e = pow2 (e - 52 + 52)" by simp
  also have "\<dots> = u * 2 ^ 52" unfolding pow2_add u_def by (simp add: pow2_def)
  finally have pe: "pow2 e = u * 2 ^ 52" .
  have nd: "nearest_double x = real_of_int (round_half_even (x / u)) * u"
    by (simp add: nearest_double_def Let_def m u_def e_def)
  have "nearest_double x - x = (real_of_int (round_half_even (x / u)) - x / u) * u"
    using upos by (simp add: nd field_simps)
  then have "\<bar>nearest_double x - x\<bar> = \<bar>real_of_int (round_half_even (x / u)) - x / u\<bar> * \<bar>u\<bar>"
    by (simp only: abs_mult)
  also have "\<dots> = \<bar>real_of_int (round_half_even (x / u)) - x / u\<bar> * u"
    using upos by simp
  also have "\<dots> \<le> (1 / 2) * u"
    using round_half_even_error [of "x / u"] upos by (intro mult_right_mono) simp_all
  also have "\<dots> = pow2 e / 2 ^ 53" by (simp add: pe)
  also have "\<dots> \<le> x / 2 ^ 53" using b(1) by (simp add: divide_right_mono)
  finally show ?thesis .
qed

lemma round_to_double_normal:
  assumes "1 / 25 \<le> x" and "x \<le> 1000"
  shows "\<exists>y. round_to_double x = Fin y \<and> \<bar>y - x\<bar> \<le> x / 2 ^ 53"
proof -
  have "pow2 (- 1022) \<le> 1 / 25" by (simp add: pow2_def)
  then have "pow2 (- 1022) \<le> x" using assms(1) by linarith
  from nearest_double_error [OF this] have err: "\<bar>nearest_double x - x\<bar> \<le> x / 2 ^ 53" .
  have "x / 2 ^ 53 \<le> x / 2" using assms(1) by (simp add: field_simps)
  with err have lo: "x / 2 \<le> nearest_double x" and hi: "nearest_double x \<le> 2 * x"
    using assms(1) by linarith+
  have "nearest_double x < pow2 1024" using hi assms(2) by (simp add: pow2_def)
  moreover have "nearest_double x \<noteq> 0" using lo assms(1) by linarith
  moreover have "x \<noteq> 0" "\<not> x < 0" "\<bar>x\<bar> = x" using assms(1) by simp_all
  ultimately have "round_to_double x = Fin (nearest_double x)"
    by (simp add: round_to_double_def Let_def)
  with err show ?thesis by blast
qed


text \<open>The operations on finite, non-zero arguments.\<close>

lemma num_add_Fin: "num_add (Fin x) (Fin y) = round_to_double (x + y)"
  by (simp add: num_add_def)

lemma num_mul_Fin: "x \<noteq> 0 \<Longrightarrow> y \<noteq> 0 \<Longrightarrow> num_mul (Fin x) (Fin y) = round_to_double (x * y)"
  by (simp add: num_mul_def)

lemma num_div_Fin: "x \<noteq> 0 \<Longrightarrow> y \<noteq> 0 \<Longrightarrow> num_div (Fin x) (Fin y) = round_to_double (x / y)"
  by (simp add: num_div_def)

lemma num_max_Fin: "num_max (Fin x) (Fin y) = Fin (max x y)"
  by (simp add: num_max_def num_less_def max_def)

lemma num_min_Fin: "num_min (Fin x) (Fin y) = Fin (min x y)"
  by (simp add: num_min_def num_less_def min_def)

lemma num_mul_commute: "num_mul a b = num_mul b a"
  by (cases "is_negative a"; cases "is_negative b") (auto simp add: num_mul_def mult.commute)

text \<open>The literals of the source and the roundings met on the concrete inputs below.\<close>

lemma lit_values:
  "lit 0 = Fin 0" "lit 1 = Fin 1" "lit 50 = Fin 50" "lit 100 = Fin 100"
  "lit (1 / 10) = Fin (3602879701896397 / 36028797018963968)"
  "lit (3 / 20) = Fin (5404319552844595 / 36028797018963968)"
  "lit (1 / 5) = Fin (3602879701896397 / 18014398509481984)"
  "lit (1 / 20) = Fin (3602879701896397 / 72057594037927936)"
  "lit (1 / 50) = Fin (5764607523034235 / 288230376151711744)"
  by (simp_all add: lit_def eval_double)

lemma rounding_steps:
  "round_to_double (3602879701896397 / 18014398509481984) = Fin (3602879701896397 / 18014398509481984)"
  "round_to_double (12610078956637389 / 36028797018963968) = Fin (3152519739159347 / 9007199254740992)"
  "round_to_double (16212958658533785 / 36028797018963968) = Fin (2026619832316723 / 4503599627370496)"
  "round_to_double (36028797018963965 / 72057594037927936) = Fin (9007199254740991 / 18014398509481984)"
  "round_to_double (3602879701896397 / 36028797018963968) = Fin (3602879701896397 / 36028797018963968)"
  "round_to_double (10808639105689191 / 36028797018963968) = Fin (1351079888211149 / 4503599627370496)"
  "round_to_double (14411518807585587 / 18014398509481984) = Fin (3602879701896397 / 4503599627370496)"
  "round_to_double (9007199254740991 / 14411518807585588) = Fin (5629499534213119 / 9007199254740992)"
  "round_to_double (140737488355327975 / 2251799813685248) = Fin (4398046511103999 / 70368744177664)"
  "round_to_double (3) = Fin (3)"
  "round_to_double (3 / 100) = Fin (1080863910568919 / 36028797018963968)"
  "round_to_double (1080863910568919 / 36028797018963968) = Fin (1080863910568919 / 36028797018963968)"
  "round_to_double (1) = Fin (1)"
  "round_to_double (1 / 117) = Fin (2463507488476169 / 288230376151711744)"
  "round_to_double (92) = Fin (92)"
  "round_to_double (92 / 2925) = Fin (4532853778796151 / 144115188075855872)"
  "round_to_double (2463507488476169 / 288230376151711744) = Fin (2463507488476169 / 288230376151711744)"
  "round_to_double (11529215046068471 / 288230376151711744) = Fin (1441151880758559 / 36028797018963968)"
  "round_to_double (1441151880758559 / 72057594037927936) = Fin (1441151880758559 / 72057594037927936)"
  by (simp_all add: eval_double)

text \<open>A relative error of one part in a million is enough for what follows.\<close>

lemma round_to_double_crude:
  assumes "1 / 25 \<le> x" and "x \<le> 1000"
  shows "\<exists>y. round_to_double x = Fin y \<and> x - x / 1000000 \<le> y \<and> y \<le> x + x / 1000000"
proof -
  from round_to_double_normal [OF assms] obtain y where
    y: "round_to_double x = Fin y" "\<bar>y - x\<bar> \<le> x / 2 ^ 53"
    by blast
  have "x / 2 ^ 53 \<le> x / 1000000" using assms(1) by (simp add: field_simps)
  with y(2) have "x - x / 1000000 \<le> y \<and> y \<le> x + x / 1000000" by linarith
  with y(1) show ?thesis by blast
qed

text \<open>The blocks of \<open>calculateScore_double\<close> are the evidence rules applied in the order of
  the source.\<close>

lemma score_technical_double_steps:
  "score_technical_double f c s
     = rule_step f c Band (rule_step f c Convergence (rule_step f c Oscillator s))"
  by (cases c; cases "technical f"; cases "market f")
     (auto simp add: score_technical_double_def rule_step_def js_lt_def js_gt_def truthy_def
        Let_def split: option.splits)

lemma score_priceAction_double_steps:
  "score_priceAction_double f c s = rule_step f c Pattern s"
  by (cases c) (simp_all add: score_priceAction_double_def rule_step_def split: option.splits)

lemma score_pullback_double_steps:
  "score_pullback_double f c s = rule_step f c Pullback (rule_step f c Trend s)"
  by (cases c)
     (simp_all add: score_pullback_double_def rule_step_def js_gt_def Let_def split: option.splits)

lemma score_derived_double_steps:
  "score_derived_double f c s = rule_step f c VolumeTrend (rule_step f c Momentum s)"
  by (cases c)
     (simp_all add: score_derived_double_def rule_step_def js_gt_def js_lt_def Let_def
        split: option.splits)

lemma score_ok_Fin: "score_ok n (Fin x) \<longleftrightarrow> (x = 0 \<or> 1 / 25 \<le> x) \<and> x \<le> real n / 4"
  by (simp add: score_ok_def)

lemma score_okE:
  assumes "score_ok n s"
  obtains x where "s = Fin x" "x = 0 \<or> 1 / 25 \<le> x" "x \<le> real n / 4"
  using assms by (cases s) (simp_all add: score_ok_def)

lemma score_ok_add:
  assumes "score_ok n s" and "n \<le> 100" and "1 / 20 \<le> a" and "a \<le> 1 / 5"
  shows "score_ok (Suc n) (num_add s (lit a))"
proof -
  from assms(1) obtain x where x: "s = Fin x" "x = 0 \<or> 1 / 25 \<le> x" "x \<le> real n / 4"
    by (rule score_okE)
  have x0: "0 \<le> x" using x(2) by linarith
  have "real n \<le> 100" using assms(2) by simp
  then have xn: "x \<le> 25" using x(3) by linarith
  have "1 / 25 \<le> a" "a \<le> 1000" using assms(3,4) by linarith+
  from round_to_double_crude [OF this] obtain a' where
    a': "lit a = Fin a'" "a - a / 1000000 \<le> a'" "a' \<le> a + a / 1000000"
    unfolding lit_def by blast
  define z where "z = x + a'"
  have lo: "1 / 25 \<le> z" using x0 a'(2) assms(3) unfolding z_def by linarith
  have hi: "z \<le> 1000" using xn a'(3) assms(4) unfolding z_def by linarith
  from round_to_double_crude [OF lo hi] obtain y where
    y: "round_to_double z = Fin y" "z - z / 1000000 \<le> y" "y \<le> z + z / 1000000"
    by blast
  have sum: "num_add s (lit a) = Fin y" by (simp add: x(1) a'(1) num_add_Fin y(1) z_def [symmetric])
  have "499 / 10000 \<le> z" using x0 a'(2) assms(3) unfolding z_def by linarith
  then have ylo: "1 / 25 \<le> y" using y(2) by linarith
  have "z \<le> real n / 4 + 2002 / 10000" using x(3) a'(3) assms(4) unfolding z_def by linarith
  moreover have "z \<le> 26" using xn a'(3) assms(4) unfolding z_def by linarith
  ultimately have "y \<le> real n / 4 + 1 / 4" using y(3) by linarith
  then have "y \<le> real (Suc n) / 4" by (simp add: field_simps)
  with ylo show ?thesis by (simp add: sum score_ok_Fin)
qed

lemma score_ok_Suc: "score_ok n s \<Longrightarrow> score_ok (Suc n) s"
  by (cases s) (auto simp: score_ok_def field_simps)

lemma amount_range: "1 / 20 \<le> amount r \<and> amount r \<le> 1 / 5"
  by (cases r) simp_all

lemma score_ok_rule_step:
  assumes "score_ok n s" and "n \<le> 100"
  shows "score_ok (Suc n) (rule_step f c r s)"
  using assms amount_range [of r]
  by (simp add: rule_step_def score_ok_add score_ok_Suc)

lemma calculateScore_double_range:
  "\<exists>x. calculateScore_double this f c = Fin x \<and> (x = 0 \<or> 1 / 25 \<le> x) \<and> x \<le> 1"
proof -
  define s where "s = rule_step f c VolumeTrend (rule_step f c Momentum
      (rule_step f c Pullback (rule_step f c Trend (rule_step f c Pattern
      (rule_step f c Band (rule_step f c Convergence (rule_step f c Oscillator (Fin 0))))))))"
  have "score_ok 0 (Fin 0)" by (simp add: score_ok_def)
  then have "score_ok 8 s"
    unfolding s_def
    by (simp add: eval_nat_numeral score_ok_rule_step)
  then obtain x where x: "s = Fin x" "x = 0 \<or> 1 / 25 \<le> x" by (rule score_okE)
  have "calculateScore_double this f c = num_max (Fin 0) (num_min (Fin 1) s)"
    by (simp add: calculateScore_double_def score_technical_double_steps
          score_priceAction_double_steps score_pullback_double_steps
          score_derived_double_steps lit_values s_def)
  also have "\<dots> = Fin (max 0 (min 1 x))" by (simp add: x(1) num_max_Fin num_min_Fin)
  finally have "calculateScore_double this f c = Fin (max 0 (min 1 x))" .
  moreover have "max 0 (min 1 x) = 0 \<or> 1 / 25 \<le> max 0 (min 1 x)" using x(2) by auto
  moreover have "max 0 (min 1 x) \<le> 1" by simp
  ultimately show ?thesis by blast
qed

text \<open>The sum of the two scores, the quotient and the product of \<open>getConfidence\<close> are
  finite, and the product lies within a half of the interval from 50 to 100.\<close>

lemma confidence_bounds:
  fixes g r :: real
  assumes g: "g = 0 \<or> 1 / 25 \<le> g" "g \<le> 1" and r: "r = 0 \<or> 1 / 25 \<le> r" "r \<le> 1"
    and nz: "g + r \<noteq> 0"
  shows "\<exists>t q p. num_add (Fin g) (Fin r) = Fin t \<and> t \<noteq> 0
          \<and> num_div (Fin (max g r)) (Fin t) = Fin q
          \<and> num_mul (Fin q) (Fin 100) = Fin p
          \<and> 50 \<le> \<lfloor>p + 1 / 2\<rfloor> \<and> \<lfloor>p + 1 / 2\<rfloor> \<le> 100"
proof -
  have g0: "0 \<le> g" and r0: "0 \<le> r" using g(1) r(1) by linarith+
  define m where "m = max g r"
  define z where "z = g + r"
  have s1: "1 / 25 \<le> z" using g(1) r(1) nz g0 r0 unfolding z_def by linarith
  have s2: "z \<le> 1000" using g(2) r(2) by (simp add: z_def)
  from round_to_double_crude [OF s1 s2] obtain t where
    t: "round_to_double z = Fin t" "z - z / 1000000 \<le> t" "t \<le> z + z / 1000000"
    by blast
  have tpos: "0 < t" using t(2) s1 by linarith
  have m1: "z / 2 \<le> m" "m \<le> z" using g0 r0 by (simp_all add: m_def z_def max_def)
  have mpos: "0 < m" using m1(1) s1 by linarith
  define q0 where "q0 = m / t"
  have "4999 / 10000 * t \<le> m" using m1(1) t(3) s1 by linarith
  then have q1: "4999 / 10000 \<le> q0"
    unfolding q0_def using tpos by (simp add: pos_le_divide_eq)
  have "m \<le> 10001 / 10000 * t" using m1(2) t(2) s1 by linarith
  then have q2: "q0 \<le> 10001 / 10000"
    unfolding q0_def using tpos by (simp add: pos_divide_le_eq)
  have "1 / 25 \<le> q0" "q0 \<le> 1000" using q1 q2 by linarith+
  from round_to_double_crude [OF this] obtain q where
    q: "round_to_double q0 = Fin q" "q0 - q0 / 1000000 \<le> q" "q \<le> q0 + q0 / 1000000"
    by blast
  have qlo: "4998 / 10000 \<le> q" using q(2) q1 by linarith
  have qhi: "q \<le> 10002 / 10000" using q(3) q2 by linarith
  define p0 where "p0 = q * 100"
  have p0lo: "4998 / 100 \<le> p0" and p0hi: "p0 \<le> 10002 / 100"
    using qlo qhi by (simp_all add: p0_def)
  have "1 / 25 \<le> p0" "p0 \<le> 1000" using p0lo p0hi by linarith+
  from round_to_double_crude [OF this] obtain p where
    p: "round_to_double p0 = Fin p" "p0 - p0 / 1000000 \<le> p" "p \<le> p0 + p0 / 1000000"
    by blast
  have plo: "4997 / 100 \<le> p" using p(2) p0lo by linarith
  have phi: "p \<le> 10003 / 100" using p(3) p0hi by linarith
  have "num_add (Fin g) (Fin r) = Fin t" by (simp add: num_add_Fin t(1) z_def [symmetric])
  moreover have "t \<noteq> 0" using tpos by simp
  moreover have "num_div (Fin (max g r)) (Fin t) = Fin q"
    using mpos tpos by (simp add: num_div_Fin q(1) m_def [symmetric] q0_def [symmetric])
  moreover have "num_mul (Fin q) (Fin 100) = Fin p"
    using qlo by (simp add: num_mul_Fin p(1) p0_def [symmetric])
  moreover have "50 \<le> \<lfloor>p + 1 / 2\<rfloor>" using plo by linarith
  moreover have "\<lfloor>p + 1 / 2\<rfloor> \<le> 100" using phi by linarith
  ultimately show ?thesis by blast
qed

text \<open>In double precision, too, the confidence is an integer from 50 to 100, and 50 when
  both scores are zero.\<close>

lemma getConfidence_double_zero:
  assumes "calculateScore_double this f GREEN = Fin 0" and "calculateScore_double this f RED = Fin 0"
  shows "getConfidence_double this (Some f) = Fin 50"
  using assms
  by (simp add: getConfidence_double_def Let_def num_add_Fin round_to_double_def lit_values)

lemma getConfidence_double_range:
  "\<exists>n. getConfidence_double this (Some f) = Fin (of_int n) \<and> 50 \<le> n \<and> n \<le> 100"
proof -
  obtain g where g: "calculateScore_double this f GREEN = Fin g" "g = 0 \<or> 1 / 25 \<le> g" "g \<le> 1"
    using calculateScore_double_range by blast
  obtain r where r: "calculateScore_double this f RED = Fin r" "r = 0 \<or> 1 / 25 \<le> r" "r \<le> 1"
    using calculateScore_double_range by blast
  show ?thesis
  proof (cases "g + r = 0")
    case True
    then have "g = 0" "r = 0" using g(2) r(2) by linarith+
    then have "getConfidence_double this (Some f) = Fin (of_int 50)"
      using getConfidence_double_zero [of this f] g(1) r(1) by simp
    then show ?thesis by (intro exI [of _ 50]) simp
  next
    case False
    from confidence_bounds [OF g(2,3) r(2,3) False] obtain t q p where
      b: "num_add (Fin g) (Fin r) = Fin t" "t \<noteq> 0"
         "num_div (Fin (max g r)) (Fin t) = Fin q"
         "num_mul (Fin q) (Fin 100) = Fin p"
         "50 \<le> \<lfloor>p + 1 / 2\<rfloor>" "\<lfloor>p + 1 / 2\<rfloor> \<le> 100"
      by blast
    have "getConfidence_double this (Some f) = num_round (Fin p)"
      using b(2) by (simp add: getConfidence_double_def g(1) r(1) Let_def b(1) num_max_Fin b(3)
            lit_values b(4))
    also have "\<dots> = Fin (of_int \<lfloor>p + 1 / 2\<rfloor>)" using b(5) by (simp add: Let_def)
    finally show ?thesis using b(5,6) by (intro exI [of _ "\<lfloor>p + 1 / 2\<rfloor>"]) simp
  qed
qed

section \<open>Properties of the scoring engine\<close>

subsection \<open>Auxiliary facts\<close>

lemma score_technical_eq:
  "score_technical f c s = s + contribution Oscillator f c + contribution Convergence f c + contribution Band f c"
  by (cases c; cases "technical f"; cases "market f")
     (auto simp add: score_technical_def contribution_def js_lt_def js_gt_def truthy_def Let_def split: option.splits)

lemma score_priceAction_eq:
  "score_priceAction f c s = s + contribution Pattern f c"
  by (cases c) (simp_all add: score_priceAction_def contribution_def split: option.splits)

lemma score_pullback_eq:
  "score_pullback f c s = s + contribution Trend f c + contribution Pullback f c"
  by (cases c) (simp_all add: score_pullback_def contribution_def js_gt_def Let_def split: option.splits)

lemma score_derived_eq:
  "score_derived f c s = s + contribution Momentum f c + contribution VolumeTrend f c"
  by (cases c) (simp_all add: score_derived_def contribution_def js_gt_def js_lt_def Let_def split: option.splits)

lemma calculateScore_bounds: "0 \<le> calculateScore this f c \<and> calculateScore this f c \<le> 1"
  by (simp add: calculateScore_def Let_def)

lemma conf_aux:
  fixes g r :: real
  assumes "0 \<le> g" "0 \<le> r" "g + r \<noteq> 0"
  shows "50 \<le> round ((max g r / (g + r)) * 100) \<and> round ((max g r / (g + r)) * 100) \<le> 100"
proof -
  define q where "q = max g r / (g + r)"
  have pos: "0 < g + r" using assms by linarith
  have "max g r \<le> g + r" using assms by simp
  then have up: "q \<le> 1" using pos by (simp add: q_def)
  have "(g + r) / 2 \<le> max g r" by (simp add: max_def)
  then have lo: "1 / 2 \<le> q" using pos by (simp add: q_def field_simps)
  have "(50::real) \<le> q * 100" using lo by simp
  then have "round (50::real) \<le> round (q * 100)"
    by (rule round_mono)
  moreover have "q * 100 \<le> (100::real)" using up by simp
  then have "round (q * 100) \<le> round (100::real)"
    by (rule round_mono)
  ultimately show ?thesis by (simp add: q_def)
qed

lemmas score_defs = calculateScore_def score_technical_def score_priceAction_def
  score_pullback_def score_derived_def js_lt_def js_gt_def truthy_def

lemmas bundle_defs = oscillator_only_def no_features_def

lemmas double_score_defs = calculateScore_double_def score_technical_double_def
  score_priceAction_double_def score_pullback_double_def score_derived_double_def
  js_lt_def js_gt_def truthy_def

subsection \<open>Claim C1: what a firing rule contributes\<close>

text \<open>
  C1 (as the code has it). For every feature bundle and every direction, the score is the
  sum, clamped to the interval from 0 to 1, of one fixed amount per evidence rule that
  fires: 0.1 for the oscillator, 0.15 for convergence/divergence, 0.2 for the band
  extremes, 0.2 for the candle patterns, 0.15 for the trend label, 0.1 for an active
  pullback (direction GREEN only), 0.1 for momentum and 0.05 for the volume trend. The
  weight table is not read: two engines with any two weight tables return the same score.
\<close>

theorem calculateScore_fixed_amounts:
  "calculateScore this f c = max 0 (min 1 (\<Sum>r\<leftarrow>all_rules. contribution r f c))
   \<and> calculateScore (this\<lparr>weights := w\<rparr>) f c = calculateScore this f c"
  by (simp add: calculateScore_def all_rules_def score_technical_eq score_priceAction_eq
        score_pullback_eq score_derived_eq Let_def)

text \<open>
  C1 as stated fails: with the constructor's weight table and a bundle in which only the
  oscillator rule fires for GREEN, the score is 0.1 while the entry \<open>technical.rsi\<close> is
  0.15, and a different entry leaves the score where it was.
\<close>

theorem calculateScore_weight_entry_counterexample:
  "fires Oscillator (oscillator_only 50) GREEN
   \<and> calculateScore new_AIEngine (oscillator_only 50) GREEN = 1 / 10
   \<and> weight_of (weights new_AIEngine) ''technical'' ''rsi'' = Some (15 / 100)
   \<and> calculateScore (new_AIEngine\<lparr>weights := [(''technical'', [(''rsi'', 1 / 2)])]\<rparr>)
        (oscillator_only 50) GREEN = 1 / 10"
  by (simp add: score_defs bundle_defs weight_of_def new_AIEngine_def initial_weights_def)

subsection \<open>Claim C2: the tie-break of predict\<close>

text \<open>
  C2 (as the code has it). For every initialised engine and every feature bundle whose
  GREEN score and RED score are equal, \<open>predict\<close> returns RED, whatever the random
  source would have returned: the comparison \<^verbatim>\<open>greenScore > redScore\<close> is strict.
\<close>

theorem predict_tie_is_RED:
  assumes "isInitialized this"
    and "calculateScore this f GREEN = calculateScore this f RED"
  shows "predict this rnd (Some f) = RED"
  using assms by (simp add: predict_def)

theorem predict_tie_is_RED_witness:
  "isInitialized initialized_engine
   \<and> calculateScore initialized_engine no_features GREEN
       = calculateScore initialized_engine no_features RED
   \<and> predict initialized_engine (9 / 10) (Some no_features) = RED"
proof -
  have i: "isInitialized initialized_engine"
    by (simp add: initialized_engine_def)
  have t: "calculateScore initialized_engine no_features GREEN
           = calculateScore initialized_engine no_features RED"
    by (simp add: score_defs bundle_defs)
  show ?thesis
    using i t predict_tie_is_RED [OF i t, of "9 / 10"] by simp
qed

text \<open>
  C2 as stated fails: on the empty bundle both scores are 0 and the initialised engine
  answers RED, not GREEN.
\<close>

theorem predict_tie_counterexample:
  "calculateScore initialized_engine no_features GREEN
     = calculateScore initialized_engine no_features RED
   \<and> predict initialized_engine (9 / 10) (Some no_features) \<noteq> GREEN"
  by (simp add: predict_def initialized_engine_def new_AIEngine_def score_defs bundle_defs)

subsection \<open>Claim C3: range and formula of the confidence\<close>

text \<open>
  C3. For every feature bundle, \<open>getConfidence\<close> returns an integer between 0 and 100
  inclusive. When the sum of the two scores is not zero it is
  \<open>round (100 * (max(scoreUP, scoreDOWN) / (scoreUP + scoreDOWN)))\<close>, where the scores, their
  sum, the quotient and the product are the doubles the source computes and \<open>round\<close> is
  \<^verbatim>\<open>Math.round\<close>; when both scores are zero it is exactly 50, and no division takes
  place. A bundle that is null also gives 50.
\<close>

theorem getConfidence_range_and_formula:
  "(\<exists>n. getConfidence_double this (Some f) = Fin (of_int n) \<and> 0 \<le> n \<and> n \<le> 100)
   \<and> (\<not> is_zero (num_add (calculateScore_double this f GREEN) (calculateScore_double this f RED)) \<longrightarrow>
        getConfidence_double this (Some f)
          = num_round (num_mul (lit 100)
              (num_div (num_max (calculateScore_double this f GREEN) (calculateScore_double this f RED))
                       (num_add (calculateScore_double this f GREEN) (calculateScore_double this f RED)))))
   \<and> (calculateScore_double this f GREEN = Fin 0 \<and> calculateScore_double this f RED = Fin 0 \<longrightarrow>
        getConfidence_double this (Some f) = Fin 50)
   \<and> getConfidence_double this None = Fin 50"
proof -
  have formula: "\<not> is_zero (num_add (calculateScore_double this f GREEN) (calculateScore_double this f RED)) \<longrightarrow>
      getConfidence_double this (Some f)
        = num_round (num_mul (lit 100)
            (num_div (num_max (calculateScore_double this f GREEN) (calculateScore_double this f RED))
                     (num_add (calculateScore_double this f GREEN) (calculateScore_double this f RED))))"
    by (simp add: getConfidence_double_def Let_def num_mul_commute [of "lit 100"])
  have zero: "calculateScore_double this f GREEN = Fin 0 \<and> calculateScore_double this f RED = Fin 0 \<longrightarrow>
      getConfidence_double this (Some f) = Fin 50"
    by (simp add: getConfidence_double_zero)
  from getConfidence_double_range [of this f] obtain n where
    "getConfidence_double this (Some f) = Fin (of_int n)" "50 \<le> n" "n \<le> 100"
    by blast
  then have range: "\<exists>n. getConfidence_double this (Some f) = Fin (of_int n) \<and> 0 \<le> n \<and> n \<le> 100"
    by (intro exI [of _ n]) simp
  have null: "getConfidence_double this None = Fin 50"
    by (simp add: getConfidence_double_def lit_values)
  from range formula zero null show ?thesis by blast
qed

text \<open>On the bundle \<open>rounding_bundle\<close> the scores are the doubles 0.49999999999999994 and
  0.30000000000000004 and the confidence is 62 (the exact decimals 0.5 and 0.3 would give
  62.5, hence 63); on the empty bundle both scores are zero and the confidence is 50.\<close>

lemma rounding_bundle_scores:
  "calculateScore_double this rounding_bundle GREEN = Fin (9007199254740991 / 18014398509481984)"
  "calculateScore_double this rounding_bundle RED = Fin (1351079888211149 / 4503599627370496)"
  by (simp_all add: double_score_defs rounding_bundle_def lit_values num_add_Fin num_max_Fin
        num_min_Fin rounding_steps)

lemma no_features_scores:
  "calculateScore_double this no_features c = Fin 0"
  by (simp add: double_score_defs no_features_def lit_values num_max_Fin num_min_Fin)

theorem getConfidence_range_and_formula_witness:
  "\<not> is_zero (num_add (calculateScore_double new_AIEngine rounding_bundle GREEN)
                       (calculateScore_double new_AIEngine rounding_bundle RED))
   \<and> getConfidence_double new_AIEngine (Some rounding_bundle) = Fin 62
   \<and> calculateScore_double new_AIEngine no_features GREEN = Fin 0
   \<and> calculateScore_double new_AIEngine no_features RED = Fin 0
   \<and> getConfidence_double new_AIEngine (Some no_features) = Fin 50"
proof -
  have nz: "\<not> is_zero (num_add (calculateScore_double new_AIEngine rounding_bundle GREEN)
                       (calculateScore_double new_AIEngine rounding_bundle RED))"
    by (simp add: rounding_bundle_scores num_add_Fin rounding_steps)
  have v: "num_round (num_mul (lit 100)
              (num_div (num_max (calculateScore_double new_AIEngine rounding_bundle GREEN)
                                (calculateScore_double new_AIEngine rounding_bundle RED))
                       (num_add (calculateScore_double new_AIEngine rounding_bundle GREEN)
                                (calculateScore_double new_AIEngine rounding_bundle RED)))) = Fin 62"
    by (simp add: rounding_bundle_scores num_mul_commute [of "lit 100"] lit_values num_add_Fin
          num_max_Fin num_div_Fin num_mul_Fin rounding_steps)
  show ?thesis
    using getConfidence_range_and_formula [of new_AIEngine rounding_bundle]
          getConfidence_range_and_formula [of new_AIEngine no_features]
          nz v
    by (simp add: no_features_scores)
qed

subsection \<open>Claim C4: determinism of predict\<close>

text \<open>
  C4 (as the code has it). For every initialised engine and every feature bundle that is
  not null, two calls of \<open>predict\<close> return the same colour whatever the random source
  returns at either call. \<open>predict\<close> assigns to no field of the engine, so the model
  returns the colour alone.
\<close>

theorem predict_deterministic_when_initialized:
  assumes "isInitialized this"
  shows "predict this rnd1 (Some f) = predict this rnd2 (Some f)"
  using assms by (simp add: predict_def)

theorem predict_deterministic_when_initialized_witness:
  "isInitialized initialized_engine
   \<and> predict initialized_engine (9 / 10) (Some (oscillator_only 20))
       = predict initialized_engine (1 / 10) (Some (oscillator_only 20))"
proof -
  have i: "isInitialized initialized_engine"
    by (simp add: initialized_engine_def)
  show ?thesis
    using i predict_deterministic_when_initialized [OF i, of "9 / 10" "oscillator_only 20" "1 / 10"]
    by simp
qed

text \<open>
  C4 as stated fails: the engine the constructor returns is not initialised, and its
  \<open>predict\<close> follows the random source, so two calls on the same bundle and the same
  weights differ.
\<close>

theorem predict_uninitialized_counterexample:
  "predict new_AIEngine (9 / 10) (Some no_features)
     \<noteq> predict new_AIEngine (1 / 10) (Some no_features)"
  by (simp add: predict_def new_AIEngine_def)

subsection \<open>Claim C10: the confidence is never below 50\<close>

text \<open>
  C10. For every feature bundle, both directional scores are non-negative, the larger is
  at least half of their sum, and the confidence lies between 50 and 100; it is exactly 50
  when both scores are zero. Hence the test \<^verbatim>\<open>confidence < threshold\<close> never holds for
  a threshold of 50 or less.
\<close>

theorem getConfidence_at_least_50:
  "0 \<le> calculateScore this f GREEN \<and> 0 \<le> calculateScore this f RED
   \<and> (calculateScore this f GREEN + calculateScore this f RED) / 2
        \<le> max (calculateScore this f GREEN) (calculateScore this f RED)
   \<and> 50 \<le> getConfidence this (Some f) \<and> getConfidence this (Some f) \<le> 100
   \<and> (calculateScore this f GREEN = 0 \<and> calculateScore this f RED = 0 \<longrightarrow>
        getConfidence this (Some f) = 50)
   \<and> (threshold \<le> 50 \<longrightarrow> \<not> getConfidence this (Some f) < threshold)"
proof -
  let ?g = "calculateScore this f GREEN" and ?r = "calculateScore this f RED"
  have nn: "0 \<le> ?g" "0 \<le> ?r" using calculateScore_bounds by blast+
  have half: "(?g + ?r) / 2 \<le> max ?g ?r" by (simp add: max_def)
  have rng: "50 \<le> getConfidence this (Some f) \<and> getConfidence this (Some f) \<le> 100"
  proof (cases "?g + ?r = 0")
    case True
    then show ?thesis by (simp add: getConfidence_def)
  next
    case False
    with conf_aux [OF nn False] show ?thesis
      by (simp add: getConfidence_def Let_def)
  qed
  have zero: "?g = 0 \<and> ?r = 0 \<longrightarrow> getConfidence this (Some f) = 50"
    by (simp add: getConfidence_def)
  from nn half rng zero show ?thesis by simp
qed

theorem getConfidence_at_least_50_witness:
  "calculateScore new_AIEngine no_features GREEN = 0
   \<and> calculateScore new_AIEngine no_features RED = 0
   \<and> getConfidence new_AIEngine (Some no_features) = 50
   \<and> (50::int) \<le> 50
   \<and> \<not> getConfidence new_AIEngine (Some no_features) < 50"
proof -
  have z: "calculateScore new_AIEngine no_features GREEN = 0"
          "calculateScore new_AIEngine no_features RED = 0"
    by (simp_all add: score_defs bundle_defs)
  show ?thesis
    using getConfidence_at_least_50 [of new_AIEngine no_features 50]
    by (simp add: z)
qed

section \<open>Properties of the oscillator\<close>

subsection \<open>Auxiliary facts\<close>

text \<open>The loop adds up the positive and the negative parts of the transitions
  \<open>1, ..., period\<close>, the first \<open>period\<close> transitions of the sequence.\<close>

lemma rsi_loop_sums:
  "rsi_loop prices period i (gains, losses)
     = (gains + (\<Sum>k\<leftarrow>[i ..< Suc period]. max (prices ! k - prices ! (k - 1)) 0),
        losses + (\<Sum>k\<leftarrow>[i ..< Suc period]. max (- (prices ! k - prices ! (k - 1))) 0))"
proof (induction prices period i "(gains, losses)" arbitrary: gains losses rule: rsi_loop.induct)
  case (1 prices period i gains losses)
  show ?case
  proof (cases "i \<le> period")
    case False
    then show ?thesis by (subst rsi_loop.simps) simp
  next
    case True
    define change where "change = prices ! i - prices ! (i - 1)"
    have upt: "[i ..< Suc period] = i # [i + 1 ..< Suc period]"
      using True by (simp add: upt_conv_Cons)
    show ?thesis
    proof (cases "change > 0")
      case pos: True
      have "rsi_loop prices period i (gains, losses)
              = rsi_loop prices period (i + 1) (gains + change, losses)"
        using True pos by (subst rsi_loop.simps) (simp add: change_def Let_def)
      also have "\<dots> = (gains + change + (\<Sum>k\<leftarrow>[i + 1 ..< Suc period]. max (prices ! k - prices ! (k - 1)) 0),
        losses + (\<Sum>k\<leftarrow>[i + 1 ..< Suc period]. max (- (prices ! k - prices ! (k - 1))) 0))"
        using "1.hyps" [OF True change_def, of "gains + change" losses] pos by simp
      finally show ?thesis using pos unfolding upt by (simp add: change_def)
    next
      case neg: False
      have "rsi_loop prices period i (gains, losses)
              = rsi_loop prices period (i + 1) (gains, losses + \<bar>change\<bar>)"
        using True neg by (subst rsi_loop.simps) (simp add: change_def Let_def)
      also have "\<dots> = (gains + (\<Sum>k\<leftarrow>[i + 1 ..< Suc period]. max (prices ! k - prices ! (k - 1)) 0),
        losses + \<bar>change\<bar> + (\<Sum>k\<leftarrow>[i + 1 ..< Suc period]. max (- (prices ! k - prices ! (k - 1))) 0))"
        using "1.hyps" [OF True change_def, of gains "losses + \<bar>change\<bar>"] neg by simp
      finally show ?thesis using neg unfolding upt by (simp add: change_def)
    qed
  qed
qed

lemma length_transitions: "length (transitions prices) = length prices - 1"
  by (simp add: transitions_def)

lemma nth_transitions:
  "k < length prices - 1 \<Longrightarrow> transitions prices ! k = prices ! Suc k - prices ! k"
  by (simp add: transitions_def nth_tl)

lemma take_transitions:
  assumes "period + 1 \<le> length prices"
  shows "take period (transitions prices) = map (\<lambda>k. prices ! k - prices ! (k - 1)) [1 ..< Suc period]"
proof (rule nth_equalityI)
  show "length (take period (transitions prices))
          = length (map (\<lambda>k. prices ! k - prices ! (k - 1)) [1 ..< Suc period])"
    using assms by (simp add: length_transitions del: upt_Suc)
next
  fix k assume "k < length (take period (transitions prices))"
  then have k: "k < period" by simp
  then have "k < length prices - 1" using assms by simp
  then show "take period (transitions prices) ! k
               = map (\<lambda>k. prices ! k - prices ! (k - 1)) [1 ..< Suc period] ! k"
    using k by (simp add: nth_transitions nth_map_upt del: upt_Suc)
qed

lemma calculateRSI_first_transitions:
  assumes "0 < period" and "period + 1 \<le> length prices"
  shows "calculateRSI prices period = Rsi (rsi_first_transitions prices period)"
proof -
  let ?d = "\<lambda>k. prices ! k - prices ! (k - 1)"
  have g: "(\<Sum>d\<leftarrow>take period (transitions prices). max d 0) = (\<Sum>k\<leftarrow>[1 ..< Suc period]. max (?d k) 0)"
    by (simp add: take_transitions [OF assms(2)] comp_def)
  have l: "(\<Sum>d\<leftarrow>take period (transitions prices). max (- d) 0)
             = (\<Sum>k\<leftarrow>[1 ..< Suc period]. max (- ?d k) 0)"
    by (simp add: take_transitions [OF assms(2)] comp_def)
  show ?thesis
    using assms
    by (simp add: calculateRSI_def rsi_loop_sums rsi_first_transitions_def rsi_of_transitions_def
          g l Let_def del: upt_Suc)
qed

lemma rsi_last_is_first_when_minimal:
  assumes "length prices = period + 1"
  shows "rsi_last_transitions prices period = rsi_first_transitions prices period"
  using assms
  by (simp add: rsi_last_transitions_def rsi_first_transitions_def js_slice_from_def js_slice_def
        length_transitions Let_def)

subsection \<open>Claim C5: the window of the oscillator\<close>

text \<open>
  C5, evaluated on the sequence 1, 2, ..., 15, 14 with period 14. Its last fourteen
  transitions are thirteen gains of 1 and one loss of 1, for which the claim gives
  \<open>100 - 100 / 14\<close>; \<open>calculateRSI\<close> reads the first fourteen transitions, all gains, and
  returns 100.
\<close>

theorem calculateRSI_reads_first_transitions:
  "calculateRSI rising_then_dip 14 = Rsi 100
   \<and> rsi_first_transitions rising_then_dip 14 = 100
   \<and> rsi_last_transitions rising_then_dip 14 = 100 - 100 / 14
   \<and> calculateRSI rising_then_dip 14 \<noteq> Rsi (rsi_last_transitions rising_then_dip 14)"
  by (simp add: calculateRSI_def rsi_loop.simps rising_then_dip_def rsi_last_transitions_def
        rsi_first_transitions_def rsi_of_transitions_def transitions_def js_slice_from_def
        js_slice_def)

section \<open>Properties of the pullback analyzer\<close>

subsection \<open>Auxiliary facts\<close>

lemma avgDepth_mean:
  "pbs \<noteq> [] \<Longrightarrow> avgDepth (calculatePullbackMetrics pbs) = mean_depth pbs"
  by (simp add: calculatePullbackMetrics_def mean_depth_def reduce_sum_double_def num_of_nat_def
        lit_values Let_def)

lemma hasValidPullback_iff:
  "hasValidPullback (analyzePullbacks marketData) \<longleftrightarrow>
     found_pullbacks (analyzePullbacks marketData) \<noteq> []
     \<and> num_greater (mean_depth (found_pullbacks (analyzePullbacks marketData))) (lit 0.02)"
  by (auto simp add: analyzePullbacks_def Let_def avgDepth_mean)

text \<open>Indices selected by a filter of an interval: strictly increasing, so nothing that
  satisfies the test lies between two neighbours.\<close>

lemma filter_upt_strict: "sorted_wrt (<) (filter P [a ..< b])"
  by (rule sorted_wrt_filter) simp

lemma sorted_wrt_less_nth_index:
  fixes xs :: "nat list"
  assumes "sorted_wrt (<) xs" "i < length xs" "j < length xs" "xs ! i < xs ! j"
  shows "i < j"
proof (rule ccontr)
  assume "\<not> i < j"
  then have "j \<le> i" by simp
  then consider "j = i" | "j < i" by linarith
  then show False
  proof cases
    case 1 with assms(4) show False by simp
  next
    case 2
    then have "xs ! j < xs ! i" using assms(1,2) by (simp add: sorted_wrt_nth_less)
    with assms(4) show False by simp
  qed
qed

lemma filter_upt_no_between:
  assumes "Suc k < length (filter P [a ..< b])"
    and "filter P [a ..< b] ! k < j" "j < filter P [a ..< b] ! Suc k"
  shows "\<not> P j"
proof
  let ?xs = "filter P [a ..< b]"
  assume "P j"
  have k: "k < length ?xs" using assms(1) by simp
  have "?xs ! k \<in> set ?xs" using k by (rule nth_mem)
  then have "a \<le> ?xs ! k" by simp
  moreover have "?xs ! Suc k \<in> set ?xs" using assms(1) by (rule nth_mem)
  then have "?xs ! Suc k < b" by simp
  ultimately have "j \<in> set ?xs" using \<open>P j\<close> assms(2,3) by simp
  then obtain m where m: "m < length ?xs" "?xs ! m = j" unfolding in_set_conv_nth by blast
  have s: "sorted_wrt (<) ?xs" by (rule filter_upt_strict)
  have "k < m" using sorted_wrt_less_nth_index [OF s k m(1)] assms(2) m(2) by simp
  moreover have "m < Suc k" using sorted_wrt_less_nth_index [OF s m(1) assms(1)] assms(3) m(2) by simp
  ultimately show False by simp
qed

text \<open>What \<open>identifyPullbacks\<close> puts into a pullback.\<close>

lemma identifyPullbacks_elem:
  assumes "p \<in> set (identifyPullbacks pks vls prices)"
  shows "\<exists>k v. Suc k < length pks \<and> v \<in> set vls
           \<and> startIndex p = index (pks ! k) \<and> endIndex p = index (pks ! Suc k)
           \<and> valleyIndex p = index v
           \<and> index (pks ! k) < index v \<and> index v < index (pks ! Suc k)
           \<and> peakPrice p = ext_price (pks ! k) \<and> valleyPrice p = ext_price v
           \<and> depth p = num_div (num_sub (peakPrice p) (valleyPrice p)) (peakPrice p)"
  using assms
proof (induction pks vls prices rule: identifyPullbacks.induct)
  case (1 peak nextPeak rest vs prices)
  let ?between = "\<lambda>v. index v > index peak \<and> index v < index nextPeak"
  have later: ?case if "p \<in> set (identifyPullbacks (nextPeak # rest) vs prices)"
  proof -
    from "1.IH" [OF that] obtain k v where
      "Suc k < length (nextPeak # rest)" "v \<in> set vs"
      "startIndex p = index ((nextPeak # rest) ! k)" "endIndex p = index ((nextPeak # rest) ! Suc k)"
      "valleyIndex p = index v"
      "index ((nextPeak # rest) ! k) < index v" "index v < index ((nextPeak # rest) ! Suc k)"
      "peakPrice p = ext_price ((nextPeak # rest) ! k)" "valleyPrice p = ext_price v"
      "depth p = num_div (num_sub (peakPrice p) (valleyPrice p)) (peakPrice p)"
      by blast
    then show ?thesis
      by (intro exI [of _ "Suc k"] exI [of _ v]) simp
  qed
  show ?case
  proof (cases "find ?between vs")
    case None
    with "1.prems" have "p \<in> set (identifyPullbacks (nextPeak # rest) vs prices)" by simp
    then show ?thesis by (rule later)
  next
    case (Some v)
    let ?new = "\<lparr>startIndex = index peak, valleyIndex = index v, endIndex = index nextPeak,
            peakPrice = ext_price peak, valleyPrice = ext_price v,
            nextPeakPrice = ext_price nextPeak,
            depth = num_div (num_sub (ext_price peak) (ext_price v)) (ext_price peak),
            recovery = num_div (num_sub (ext_price nextPeak) (ext_price v)) (ext_price v),
            strength = calculatePullbackStrength [(index peak, index v, index nextPeak)] prices\<rparr>"
    from Some "1.prems" have "p = ?new \<or> p \<in> set (identifyPullbacks (nextPeak # rest) vs prices)"
      by simp
    then show ?thesis
    proof
      assume p: "p = ?new"
      from Some have "v \<in> set vs" "index peak < index v" "index v < index nextPeak"
        by (auto simp: find_Some_iff)
      with p show ?thesis
        by (intro exI [of _ 0] exI [of _ v]) simp
    next
      assume "p \<in> set (identifyPullbacks (nextPeak # rest) vs prices)"
      then show ?thesis by (rule later)
    qed
  qed
qed simp_all

lemma peak_indices_iff: "i \<in> set (peak_indices prices) \<longleftrightarrow> is_peak prices i"
  by (auto simp: peak_indices_def is_peak_def num_greater_def)

lemma findPeaks_peak_indices:
  "findPeaks prices = map (\<lambda>i. \<lparr>index = i, ext_price = prices ! i\<rparr>) (peak_indices prices)"
  by (simp add: findPeaks_def peak_indices_def)

lemma findPeaks_nth:
  assumes "k < length (findPeaks prices)"
  shows "index (findPeaks prices ! k) = peak_indices prices ! k"
    and "ext_price (findPeaks prices ! k) = prices ! (peak_indices prices ! k)"
    and "is_peak prices (peak_indices prices ! k)"
proof -
  have k: "k < length (peak_indices prices)"
    using assms by (simp add: findPeaks_peak_indices)
  then show "index (findPeaks prices ! k) = peak_indices prices ! k"
    and "ext_price (findPeaks prices ! k) = prices ! (peak_indices prices ! k)"
    by (simp_all add: findPeaks_peak_indices)
  from k have "peak_indices prices ! k \<in> set (peak_indices prices)" by (rule nth_mem)
  then show "is_peak prices (peak_indices prices ! k)" by (simp only: peak_indices_iff)
qed

lemma peak_indices_no_between:
  assumes "Suc k < length (peak_indices prices)"
    and "peak_indices prices ! k < j" "j < peak_indices prices ! Suc k"
  shows "\<not> is_peak prices j"
proof
  assume "is_peak prices j"
  then have "(\<lambda>i. num_greater (prices ! i) (prices ! (i - 1))
                \<and> num_greater (prices ! i) (prices ! (i + 1))) j"
    by (simp add: is_peak_def num_greater_def)
  moreover have "\<not> (\<lambda>i. num_greater (prices ! i) (prices ! (i - 1))
                \<and> num_greater (prices ! i) (prices ! (i + 1))) j"
    using assms unfolding peak_indices_def by (rule filter_upt_no_between)
  ultimately show False by blast
qed

lemma findValleys_elem:
  assumes "v \<in> set (findValleys prices)"
  shows "is_valley prices (index v)" and "ext_price v = prices ! index v"
  using assms by (auto simp: findValleys_def is_valley_def)

lemma found_pullbacks_eq:
  "found_pullbacks (analyzePullbacks marketData)
     = identifyPullbacks (findPeaks (prices_of marketData)) (findValleys (prices_of marketData))
         (prices_of marketData)"
  by (simp add: analyzePullbacks_def Let_def prices_of_def)

lemma found_pullbacks_shape_aux:
  assumes "p \<in> set (found_pullbacks (analyzePullbacks marketData))"
  shows "is_peak (prices_of marketData) (startIndex p)
       \<and> is_valley (prices_of marketData) (valleyIndex p)
       \<and> is_peak (prices_of marketData) (endIndex p)
       \<and> startIndex p < valleyIndex p \<and> valleyIndex p < endIndex p
       \<and> (\<forall>j. startIndex p < j \<and> j < endIndex p \<longrightarrow> \<not> is_peak (prices_of marketData) j)
       \<and> peakPrice p = prices_of marketData ! startIndex p
       \<and> valleyPrice p = prices_of marketData ! valleyIndex p
       \<and> depth p = num_div (num_sub (peakPrice p) (valleyPrice p)) (peakPrice p)"
proof -
  define prices where "prices = prices_of marketData"
  from assms have "p \<in> set (identifyPullbacks (findPeaks prices) (findValleys prices) prices)"
    by (simp add: analyzePullbacks_def Let_def prices_def prices_of_def)
  from identifyPullbacks_elem [OF this] obtain k v where
    kv: "Suc k < length (findPeaks prices)" "v \<in> set (findValleys prices)"
      "startIndex p = index (findPeaks prices ! k)" "endIndex p = index (findPeaks prices ! Suc k)"
      "valleyIndex p = index v"
      "index (findPeaks prices ! k) < index v" "index v < index (findPeaks prices ! Suc k)"
      "peakPrice p = ext_price (findPeaks prices ! k)" "valleyPrice p = ext_price v"
      "depth p = num_div (num_sub (peakPrice p) (valleyPrice p)) (peakPrice p)"
    by blast
  have k: "k < length (findPeaks prices)" using kv(1) by simp
  note pk = findPeaks_nth [OF k] and pk' = findPeaks_nth [OF kv(1)]
  note vl = findValleys_elem [OF kv(2)]
  have s: "startIndex p = peak_indices prices ! k" using kv(3) pk(1) by simp
  have e: "endIndex p = peak_indices prices ! Suc k" using kv(4) pk'(1) by simp
  have len: "Suc k < length (peak_indices prices)"
    using kv(1) by (simp add: findPeaks_peak_indices)
  have between: "\<forall>j. startIndex p < j \<and> j < endIndex p \<longrightarrow> \<not> is_peak prices j"
    using peak_indices_no_between [OF len] s e by simp
  have "is_peak prices (startIndex p)" using pk(3) s by simp
  moreover have "is_valley prices (valleyIndex p)" using vl(1) kv(5) by simp
  moreover have "is_peak prices (endIndex p)" using pk'(3) e by simp
  moreover have "startIndex p < valleyIndex p" using kv(3,5,6) by simp
  moreover have "valleyIndex p < endIndex p" using kv(4,5,7) by simp
  moreover have "peakPrice p = prices ! startIndex p" using kv(8) pk(2) s by simp
  moreover have "valleyPrice p = prices ! valleyIndex p" using kv(9,5) vl(2) by simp
  ultimately show ?thesis using between kv(10) unfolding prices_def by blast
qed


subsection \<open>Claim C6: when a window has a valid pullback\<close>

text \<open>
  C6. For every price window, \<open>hasValidPullback\<close> is true if and only if at least one
  pullback was identified and the mean depth of the identified pullbacks exceeds the
  minimum depth 0.02. Every identified pullback consists of a peak, a valley strictly
  between, and the next peak (no peak lies between the two), and its depth is
  \<open>(peak.price - valley.price) / peak.price\<close>. The difference, the quotient, the sum of the
  depths and the mean are the doubles the source computes, and the comparison with the
  double 0.02 is exact.
\<close>

theorem hasValidPullback_iff_mean_depth:
  "(hasValidPullback (analyzePullbacks marketData) \<longleftrightarrow>
      found_pullbacks (analyzePullbacks marketData) \<noteq> []
      \<and> num_greater (mean_depth (found_pullbacks (analyzePullbacks marketData))) (lit 0.02))
   \<and> (\<forall>p \<in> set (found_pullbacks (analyzePullbacks marketData)).
        is_peak (prices_of marketData) (startIndex p)
      \<and> is_valley (prices_of marketData) (valleyIndex p)
      \<and> is_peak (prices_of marketData) (endIndex p)
      \<and> startIndex p < valleyIndex p \<and> valleyIndex p < endIndex p
      \<and> (\<forall>j. startIndex p < j \<and> j < endIndex p \<longrightarrow> \<not> is_peak (prices_of marketData) j)
      \<and> peakPrice p = prices_of marketData ! startIndex p
      \<and> valleyPrice p = prices_of marketData ! valleyIndex p
      \<and> depth p = num_div (num_sub (peakPrice p) (valleyPrice p)) (peakPrice p))"
  using hasValidPullback_iff [of marketData] found_pullbacks_shape_aux [of _ marketData]
  by blast

text \<open>On the window 98, 100, 97, 101, 99 there is one pullback, of depth
  \<open>(100 - 97) / 100\<close>, and the flag is true. On the window 100, 117, 116, 2925, 2833, 3000,
  2000 there are two, of depths \<open>1 / 117\<close> and \<open>92 / 2925\<close>; their mean is 0.02 in exact
  arithmetic and 0.020000000000000004 in doubles, and the flag is true.\<close>

lemma dip_window_depths:
  "map depth (found_pullbacks (analyzePullbacks dip_window)) = [Fin (1080863910568919 / 36028797018963968)]"
proof -
  have pk: "findPeaks (prices_of dip_window)
              = [\<lparr>index = 1, ext_price = Fin 100\<rparr>, \<lparr>index = 3, ext_price = Fin 101\<rparr>]"
    by (simp add: findPeaks_def prices_of_def dip_window_def obs_def upt_conv_Cons
          num_greater_def num_less_def)
  have vl: "findValleys (prices_of dip_window) = [\<lparr>index = 2, ext_price = Fin 97\<rparr>]"
    by (simp add: findValleys_def prices_of_def dip_window_def obs_def upt_conv_Cons
          num_less_def)
  show ?thesis
    by (simp add: found_pullbacks_eq pk vl num_sub_def num_add_Fin num_div_Fin rounding_steps)
qed

lemma threshold_window_depths:
  "map depth (found_pullbacks (analyzePullbacks threshold_window))
     = [Fin (2463507488476169 / 288230376151711744), Fin (4532853778796151 / 144115188075855872)]"
proof -
  have pk: "findPeaks (prices_of threshold_window)
              = [\<lparr>index = 1, ext_price = Fin 117\<rparr>, \<lparr>index = 3, ext_price = Fin 2925\<rparr>,
                 \<lparr>index = 5, ext_price = Fin 3000\<rparr>]"
    by (simp add: findPeaks_def prices_of_def threshold_window_def obs_def upt_conv_Cons
          num_greater_def num_less_def)
  have vl: "findValleys (prices_of threshold_window)
              = [\<lparr>index = 2, ext_price = Fin 116\<rparr>, \<lparr>index = 4, ext_price = Fin 2833\<rparr>]"
    by (simp add: findValleys_def prices_of_def threshold_window_def obs_def upt_conv_Cons
          num_less_def)
  show ?thesis
    by (simp add: found_pullbacks_eq pk vl num_sub_def num_add_Fin num_div_Fin rounding_steps)
qed

lemma mean_depth_map:
  "mean_depth pbs
     = num_div (foldl (\<lambda>a b. num_add a b) (Fin 0) (map depth pbs))
         (Fin (real (length (map depth pbs))))"
  by (simp add: mean_depth_def)

theorem hasValidPullback_iff_mean_depth_witness:
  "found_pullbacks (analyzePullbacks dip_window) \<noteq> []
   \<and> mean_depth (found_pullbacks (analyzePullbacks dip_window)) = Fin (1080863910568919 / 36028797018963968)
   \<and> hasValidPullback (analyzePullbacks dip_window)
   \<and> found_pullbacks (analyzePullbacks threshold_window) \<noteq> []
   \<and> mean_depth (found_pullbacks (analyzePullbacks threshold_window)) = Fin (1441151880758559 / 72057594037927936)
   \<and> hasValidPullback (analyzePullbacks threshold_window)"
proof -
  have ne1: "found_pullbacks (analyzePullbacks dip_window) \<noteq> []"
    using dip_window_depths by auto
  have m1: "mean_depth (found_pullbacks (analyzePullbacks dip_window)) = Fin (1080863910568919 / 36028797018963968)"
    by (simp add: mean_depth_map dip_window_depths num_add_Fin num_div_Fin rounding_steps)
  have ne2: "found_pullbacks (analyzePullbacks threshold_window) \<noteq> []"
    using threshold_window_depths by auto
  have m2: "mean_depth (found_pullbacks (analyzePullbacks threshold_window)) = Fin (1441151880758559 / 72057594037927936)"
    by (simp add: mean_depth_map threshold_window_depths num_add_Fin num_div_Fin rounding_steps)
  have g1: "num_greater (Fin (1080863910568919 / 36028797018963968)) (lit 0.02)"
    by (simp add: num_greater_def num_less_def lit_values)
  have g2: "num_greater (Fin (1441151880758559 / 72057594037927936)) (lit 0.02)"
    by (simp add: num_greater_def num_less_def lit_values)
  show ?thesis
    using hasValidPullback_iff_mean_depth [of dip_window]
          hasValidPullback_iff_mean_depth [of threshold_window]
          ne1 ne2 g1 g2
    by (simp add: m1 m2)
qed

section \<open>Properties of the training simulator\<close>

subsection \<open>Auxiliary facts\<close>

lemma sample_loop_counts:
  "\<exists>c'. sample_loop this rnd batch (c, t) = (c', t + length batch) \<and> c \<le> c' \<and> c' \<le> c + length batch"
proof (induction batch arbitrary: c t)
  case Nil
  show ?case by simp
next
  case (Cons s batch)
  let ?c = "if predict this (rnd t) (Some (sample_features s)) = target s then c + 1 else c"
  from Cons.IH [of ?c "t + 1"] obtain c' where
    "sample_loop this rnd batch (?c, t + 1) = (c', t + 1 + length batch)" "?c \<le> c'"
    "c' \<le> ?c + length batch"
    by blast
  then show ?case by (auto simp: Let_def split: if_splits)
qed

lemma js_slice_batch:
  assumes "0 \<le> i" "0 < b"
  shows "js_slice xs i (i + b) = take (nat b) (drop (nat i) xs)"
proof (cases "i \<le> int (length xs)")
  case True
  then show ?thesis using assms
    by (cases "i + b \<le> int (length xs)") (simp_all add: js_slice_def Let_def min_def)
next
  case False
  then show ?thesis using assms by (simp add: js_slice_def Let_def min_def)
qed

lemma length_js_slice_batch:
  assumes "0 \<le> i" "0 < b"
  shows "length (js_slice xs i (i + b)) = min (nat b) (length xs - nat i)"
  using assms by (simp add: js_slice_batch)

lemma batch_loop_counts:
  assumes "0 < batchSize this" "0 \<le> i"
  shows "\<exists>c'. batch_loop this rnd td i (c, t) = Some (c', t + (length td - nat i))
            \<and> c \<le> c' \<and> c' \<le> c + (length td - nat i)"
  using assms(2)
proof (induction "length td - nat i" arbitrary: i c t rule: less_induct)
  case less
  show ?case
  proof (cases "i < int (length td)")
    case False
    then have "length td - nat i = 0" by simp
    with False show ?thesis by (subst batch_loop.simps) simp
  next
    case True
    let ?b = "batchSize this"
    let ?batch = "js_slice td i (i + ?b)"
    have len: "length ?batch = min (nat ?b) (length td - nat i)"
      using less.prems assms(1) by (rule length_js_slice_batch)
    obtain c1 where c1: "sample_loop this rnd ?batch (c, t) = (c1, t + length ?batch)"
      "c \<le> c1" "c1 \<le> c + length ?batch"
      using sample_loop_counts by blast
    have smaller: "length td - nat (i + ?b) < length td - nat i"
      using True less.prems assms(1) by linarith
    have nonneg: "0 \<le> i + ?b" using less.prems assms(1) by simp
    from less.hyps [OF smaller nonneg, of c1 "t + length ?batch"] obtain c' where
      c': "batch_loop this rnd td (i + ?b) (c1, t + length ?batch)
             = Some (c', t + length ?batch + (length td - nat (i + ?b)))"
      "c1 \<le> c'" "c' \<le> c1 + (length td - nat (i + ?b))"
      by blast
    have split: "length ?batch + (length td - nat (i + ?b)) = length td - nat i"
      using True less.prems assms(1) len by (simp add: min_def nat_add_distrib) linarith
    have "batch_loop this rnd td i (c, t) = batch_loop this rnd td (i + ?b) (c1, t + length ?batch)"
      using True c1(1) by (subst batch_loop.simps) (simp add: Let_def)
    moreover have "t + length ?batch + (length td - nat (i + ?b)) = t + (length td - nat i)"
      using split by linarith
    ultimately have "batch_loop this rnd td i (c, t) = Some (c', t + (length td - nat i))"
      using c'(1) by simp
    moreover have "c \<le> c'" using c1(2) c'(2) by linarith
    moreover have "c' \<le> c + (length td - nat i)" using c1(3) c'(3) split by linarith
    ultimately show ?thesis by blast
  qed
qed

lemma epoch_loop_counts:
  assumes "0 < batchSize this"
  shows "\<exists>c'. epoch_loop this rnd td n (c, t) = Some (c', t + n * length td)
            \<and> c \<le> c' \<and> c' \<le> c + n * length td"
proof (induction n arbitrary: c t)
  case 0
  show ?case by simp
next
  case (Suc n)
  from batch_loop_counts [OF assms, of 0 rnd td c t] obtain c1 where
    c1: "batch_loop this rnd td 0 (c, t) = Some (c1, t + length td)" "c \<le> c1" "c1 \<le> c + length td"
    by auto
  from Suc.IH [of c1 "t + length td"] obtain c' where
    c': "epoch_loop this rnd td n (c1, t + length td) = Some (c', t + length td + n * length td)"
    "c1 \<le> c'" "c' \<le> c1 + n * length td"
    by blast
  have "epoch_loop this rnd td (Suc n) (c, t) = epoch_loop this rnd td n (c1, t + length td)"
    using c1(1) by simp
  moreover have "t + length td + n * length td = t + Suc n * length td" by simp
  ultimately have "epoch_loop this rnd td (Suc n) (c, t) = Some (c', t + Suc n * length td)"
    using c'(1) by simp
  moreover have "c \<le> c'" using c1(2) c'(2) by linarith
  moreover have "c' \<le> c + Suc n * length td" using c1(3) c'(3) by simp
  ultimately show ?case by blast
qed

lemma simulateTraining_returns:
  assumes "0 < batchSize this"
  shows "\<exists>results. simulateTraining this rnd td = Some results
           \<and> total results = nat (epochs this) * length td
           \<and> correct results \<le> total results
           \<and> accuracy results
               = (if total results = 0 then None
                  else Some (real (correct results) / real (total results) * 100))"
proof -
  from epoch_loop_counts [OF assms, of rnd td "nat (epochs this)" 0 0] obtain c where
    "epoch_loop this rnd td (nat (epochs this)) (0, 0) = Some (c, nat (epochs this) * length td)"
    "c \<le> nat (epochs this) * length td"
    by auto
  then show ?thesis by (simp add: simulateTraining_def)
qed

lemma weight_of_scale_weights:
  "weight_of (scale_weights k w) category feature
     = map_option (\<lambda>v. v * k) (weight_of w category feature)"
proof -
  have inner: "map_of (map (\<lambda>(feature, v). (feature, v * k)) fs) feature
                 = map_option (\<lambda>v. v * k) (map_of fs feature)" for fs :: "(string \<times> real) list"
    by (induction fs) auto
  have outer: "map_of (scale_weights k w) category
                 = map_option (map (\<lambda>(feature, v). (feature, v * k))) (map_of w category)"
    by (induction w) (auto simp: scale_weights_def)
  show ?thesis
    by (cases "map_of w category") (simp_all add: weight_of_def outer inner)
qed

lemma updateWeights_cases:
  assumes "accuracy results = Some a"
  shows "(a > 80 \<longrightarrow> updateWeights this results = this\<lparr>weights := scale_weights 1.01 (weights this)\<rparr>)
       \<and> (a < 60 \<longrightarrow> updateWeights this results = this\<lparr>weights := scale_weights 0.99 (weights this)\<rparr>)
       \<and> (60 \<le> a \<and> a \<le> 80 \<longrightarrow> updateWeights this results = this)"
  using assms by (simp add: updateWeights_def js_gt_def js_lt_def)

text \<open>When every prediction matches its target, every sample counts as correct.\<close>

lemma sample_loop_all_hits:
  assumes "\<And>s k. s \<in> set batch \<Longrightarrow> predict this (rnd k) (Some (sample_features s)) = target s"
  shows "sample_loop this rnd batch (c, t) = (c + length batch, t + length batch)"
  using assms by (induction batch arbitrary: c t) simp_all

lemma batch_loop_all_hits:
  assumes "0 < batchSize this" "0 \<le> i"
    and hit: "\<And>s k. s \<in> set td \<Longrightarrow> predict this (rnd k) (Some (sample_features s)) = target s"
  shows "batch_loop this rnd td i (c, t)
           = Some (c + (length td - nat i), t + (length td - nat i))"
  using assms(2)
proof (induction "length td - nat i" arbitrary: i c t rule: less_induct)
  case less
  show ?case
  proof (cases "i < int (length td)")
    case False
    then have "length td - nat i = 0" by simp
    with False show ?thesis by (subst batch_loop.simps) simp
  next
    case True
    let ?b = "batchSize this"
    let ?batch = "js_slice td i (i + ?b)"
    have eq: "?batch = take (nat ?b) (drop (nat i) td)"
      using less.prems assms(1) by (rule js_slice_batch)
    have len: "length ?batch = min (nat ?b) (length td - nat i)"
      using less.prems assms(1) by (rule length_js_slice_batch)
    have sub: "set ?batch \<subseteq> set td"
      unfolding eq using set_take_subset set_drop_subset by fast
    have c1: "sample_loop this rnd ?batch (c, t) = (c + length ?batch, t + length ?batch)"
      by (rule sample_loop_all_hits) (use sub hit in blast)
    have smaller: "length td - nat (i + ?b) < length td - nat i"
      using True less.prems assms(1) by linarith
    have nonneg: "0 \<le> i + ?b" using less.prems assms(1) by simp
    have split: "length ?batch + (length td - nat (i + ?b)) = length td - nat i"
      using True less.prems assms(1) len by (simp add: min_def nat_add_distrib) linarith
    have "batch_loop this rnd td i (c, t)
            = batch_loop this rnd td (i + ?b) (c + length ?batch, t + length ?batch)"
      using True c1 by (subst batch_loop.simps) (simp add: Let_def)
    also have "\<dots> = Some (c + length ?batch + (length td - nat (i + ?b)),
                          t + length ?batch + (length td - nat (i + ?b)))"
      by (rule less.hyps [OF smaller nonneg])
    also have "\<dots> = Some (c + (length td - nat i), t + (length td - nat i))"
      using split by (simp add: add.assoc)
    finally show ?thesis .
  qed
qed

lemma epoch_loop_all_hits:
  assumes "0 < batchSize this"
    and hit: "\<And>s k. s \<in> set td \<Longrightarrow> predict this (rnd k) (Some (sample_features s)) = target s"
  shows "epoch_loop this rnd td n (c, t) = Some (c + n * length td, t + n * length td)"
proof (induction n arbitrary: c t)
  case 0
  show ?case by simp
next
  case (Suc n)
  have "batch_loop this rnd td 0 (c, t)
          = Some (c + (length td - nat 0), t + (length td - nat 0))"
    by (rule batch_loop_all_hits [OF assms(1)]) (simp, rule hit)
  then show ?case by (simp add: Suc.IH add.assoc)
qed

subsection \<open>Claim C7: the weight update after a training run\<close>

text \<open>
  C7. A call of \<open>train\<close> on at least 100 prepared samples, with a positive batch size and a
  positive number of epochs, returns. Its accuracy \<open>a\<close> is \<open>correct / total * 100\<close>, where
  the two counters run over all epochs (\<open>total\<close> is the number of epochs times the number of
  samples). The engine it leaves behind has every weight of every category multiplied by
  1.01 when \<open>a > 80\<close>, multiplied by 0.99 when \<open>a < 60\<close>, and the weight table unchanged when
  \<open>60 \<le> a \<le> 80\<close>.
\<close>

theorem train_weight_update:
  assumes "100 \<le> length trainingData" and "0 < batchSize this" and "0 < epochs this"
  shows "\<exists>results a.
           train this rnd trainingData = Some (updateWeights this results, Trained results)
         \<and> total results = nat (epochs this) * length trainingData
         \<and> correct results \<le> total results
         \<and> accuracy results = Some a
         \<and> a = real (correct results) / real (total results) * 100
         \<and> (a > 80 \<longrightarrow> (\<forall>category feature.
               weight_of (weights (updateWeights this results)) category feature
                 = map_option (\<lambda>v. v * 1.01) (weight_of (weights this) category feature)))
         \<and> (a < 60 \<longrightarrow> (\<forall>category feature.
               weight_of (weights (updateWeights this results)) category feature
                 = map_option (\<lambda>v. v * 0.99) (weight_of (weights this) category feature)))
         \<and> (60 \<le> a \<and> a \<le> 80 \<longrightarrow> weights (updateWeights this results) = weights this)"
proof -
  from simulateTraining_returns [OF assms(2), of rnd trainingData] obtain results where
    r: "simulateTraining this rnd trainingData = Some results"
       "total results = nat (epochs this) * length trainingData"
       "correct results \<le> total results"
       "accuracy results = (if total results = 0 then None
                            else Some (real (correct results) / real (total results) * 100))"
    by blast
  have "trainingData \<noteq> []" using assms(1) by auto
  then have pos: "total results \<noteq> 0" using r(2) assms(3) by simp
  define a where "a = real (correct results) / real (total results) * 100"
  have acc: "accuracy results = Some a" using r(4) pos by (simp add: a_def)
  have t: "train this rnd trainingData = Some (updateWeights this results, Trained results)"
    using assms(1) r(1) by (simp add: train_def)
  note u = updateWeights_cases [OF acc, of this]
  have up: "a > 80 \<longrightarrow> (\<forall>category feature.
               weight_of (weights (updateWeights this results)) category feature
                 = map_option (\<lambda>v. v * 1.01) (weight_of (weights this) category feature))"
    using u by (simp add: weight_of_scale_weights)
  have down: "a < 60 \<longrightarrow> (\<forall>category feature.
               weight_of (weights (updateWeights this results)) category feature
                 = map_option (\<lambda>v. v * 0.99) (weight_of (weights this) category feature))"
    using u by (simp add: weight_of_scale_weights)
  have same: "60 \<le> a \<and> a \<le> 80 \<longrightarrow> weights (updateWeights this results) = weights this"
    using u by simp
  from t r(2,3) acc a_def up down same show ?thesis by blast
qed

text \<open>A run on one hundred samples with target RED, by the engine the constructor returns
  (not initialised, so \<open>predict\<close> follows the random source) and a random source that
  always returns 0: every prediction is RED, the accuracy is 100, and the entry
  \<open>technical.rsi\<close> becomes \<open>0.15 * 1.01\<close>.\<close>

theorem train_weight_update_witness:
  "100 \<le> length hundred_red \<and> 0 < batchSize new_AIEngine \<and> 0 < epochs new_AIEngine
   \<and> (\<exists>e results. train new_AIEngine (\<lambda>k. 0) hundred_red = Some (e, Trained results)
         \<and> accuracy results = Some 100 \<and> total results = 10000
         \<and> weight_of (weights e) ''technical'' ''rsi'' = Some (15 / 100 * (101 / 100)))"
proof -
  have h: "100 \<le> length hundred_red" "0 < batchSize new_AIEngine" "0 < epochs new_AIEngine"
    by (simp_all add: hundred_red_def new_AIEngine_def)
  from train_weight_update [OF h, of "\<lambda>k. 0"] obtain results a where
    r: "train new_AIEngine (\<lambda>k. 0) hundred_red
          = Some (updateWeights new_AIEngine results, Trained results)"
       "total results = nat (epochs new_AIEngine) * length hundred_red"
       "accuracy results = Some a"
       "a > 80 \<longrightarrow> (\<forall>category feature.
               weight_of (weights (updateWeights new_AIEngine results)) category feature
                 = map_option (\<lambda>v. v * 1.01) (weight_of (weights new_AIEngine) category feature))"
    by blast
  have hit: "predict new_AIEngine ((\<lambda>k. 0) k) (Some (sample_features s)) = target s"
    if "s \<in> set hundred_red" for s k
    using that by (auto simp: hundred_red_def predict_def new_AIEngine_def)
  have "epoch_loop new_AIEngine (\<lambda>k. 0) hundred_red (nat (epochs new_AIEngine)) (0, 0)
          = Some (0 + nat (epochs new_AIEngine) * length hundred_red,
                  0 + nat (epochs new_AIEngine) * length hundred_red)"
    by (rule epoch_loop_all_hits [OF h(2)]) (rule hit)
  then have "simulateTraining new_AIEngine (\<lambda>k. 0) hundred_red
          = Some \<lparr>accuracy = Some 100, correct = 10000, total = 10000, result_epochs = 100\<rparr>"
    by (simp add: simulateTraining_def hundred_red_def new_AIEngine_def)
  with h(1) r(1) have res: "results = \<lparr>accuracy = Some 100, correct = 10000, total = 10000, result_epochs = 100\<rparr>"
    by (simp add: train_def)
  with r(3) have a: "a = 100" by simp
  have "weight_of (weights (updateWeights new_AIEngine results)) ''technical'' ''rsi''
          = map_option (\<lambda>v. v * 1.01) (weight_of (weights new_AIEngine) ''technical'' ''rsi'')"
    using r(4) a by simp
  also have "\<dots> = Some (15 / 100 * (101 / 100))"
    by (simp add: weight_of_def new_AIEngine_def initial_weights_def)
  finally show ?thesis using h r(1) res by simp
qed

subsection \<open>Claim C8: fewer than 100 samples\<close>

text \<open>
  C8. When the prepared training samples number fewer than 100, \<open>train\<close> returns, the
  engine (and so every weight) is exactly as before the call, and the report is the skip,
  which carries no accuracy.
\<close>

theorem train_skips_small_sets:
  assumes "length trainingData < 100"
  shows "train this rnd trainingData = Some (this, Skipped)"
  using assms by (simp add: train_def)

theorem train_skips_small_sets_witness:
  "length (take 99 hundred_red) < 100
   \<and> train new_AIEngine (\<lambda>k. 0) (take 99 hundred_red) = Some (new_AIEngine, Skipped)"
proof -
  have h: "length (take 99 hundred_red) < 100" by simp
  show ?thesis using h train_skips_small_sets [OF h] by simp
qed

section \<open>Properties of the signal validator\<close>

subsection \<open>Auxiliary facts\<close>

lemma upt_1_3: "[1 ..< 3] = [1, 2::nat]"
  by (simp add: upt_conv_Cons)

lemma swing_volatility: "calculateVolatility [100, 110, 99] = 1 / 10"
proof -
  have "sqrt (1 / 100) = (1 / 10 :: real)"
    by (rule real_sqrt_unique) (simp_all add: power2_eq_square)
  then show ?thesis
   by (simp add: calculateVolatility_def upt_1_3 reduce_sum_def power2_eq_square)
qed

lemmas validate_defs = validateSignal_def new_SignalGenerator_def confident_signal_def
  swing_window_def js_gt_def js_lt_def truthy_def js_slice_from_def js_slice_def

subsection \<open>Claim C9: the volume floor\<close>

text \<open>
  C9 (as the code has it). For every window whose latest observation carries a volume
  that is not zero and is below 1000, \<open>validateSignal\<close> returns false, whatever the
  confidence, the age of the data, the volatility and the pullback analysis are. It
  returns a value in every case; nothing is raised.
\<close>

theorem validateSignal_rejects_low_volume:
  assumes "marketData \<noteq> []"
    and "volume (last marketData) = Some v" and "v \<noteq> 0" and "v < 1000"
  shows "\<not> validateSignal this now sig marketData"
  using assms by (simp add: validateSignal_def Let_def truthy_def js_lt_def)

text \<open>The witness is a window that passes every gate when its volume is 5000 and is
  rejected when its volume is 500.\<close>

theorem validateSignal_rejects_low_volume_witness:
  "swing_window (Some 500) \<noteq> []
   \<and> volume (last (swing_window (Some 500))) = Some 500
   \<and> validateSignal new_SignalGenerator 1000 confident_signal (swing_window (Some 5000))
   \<and> \<not> validateSignal new_SignalGenerator 1000 confident_signal (swing_window (Some 500))"
proof -
  have h: "swing_window (Some 500) \<noteq> []" "volume (last (swing_window (Some 500))) = Some 500"
    "(500::real) \<noteq> 0" "(500::real) < 1000"
    by (simp_all add: swing_window_def)
  have "validateSignal new_SignalGenerator 1000 confident_signal (swing_window (Some 5000))"
    by (simp add: validate_defs swing_volatility)
  then show ?thesis
    using h(1,2) validateSignal_rejects_low_volume [OF h, of new_SignalGenerator 1000 confident_signal]
    by simp
qed

text \<open>
  C9 as stated fails: a volume of 0 is present and below the floor, but the test
  \<^verbatim>\<open>latestData.volume && latestData.volume < 1000\<close> treats 0 as no volume, and the same
  window passes.
\<close>

theorem validateSignal_zero_volume_counterexample:
  "volume (last (swing_window (Some 0))) = Some 0
   \<and> (0::real) < 1000
   \<and> validateSignal new_SignalGenerator 1000 confident_signal (swing_window (Some 0))"
  by (simp add: validate_defs swing_volatility)

end
